theory Spec2Isabelle
  imports Main "HOL-Library.Word"
begin

section \<open>notasound.ino: the runtime control plane\<close>

text \<open>
  A shallow embedding of the control code of \<^verbatim>\<open>notasound.ino\<close>: the command latch
  (\<^verbatim>\<open>IREvent\<close>), the command handler (\<^verbatim>\<open>getirl\<close> and the \<^verbatim>\<open>set_*\<close> routines), the mode
  dispatch (\<^verbatim>\<open>strobe_mode\<close>), the demo scheduler (\<^verbatim>\<open>demo_check\<close>), the mesh wait, the
  EEPROM part of \<^verbatim>\<open>setup\<close> and the palette rotation block of \<^verbatim>\<open>loop\<close>.

  The sketch targets 8-bit AVR boards: \<^verbatim>\<open>uint8_t\<close>, \<^verbatim>\<open>uint16_t\<close> and \<^verbatim>\<open>uint32_t\<close> are
  words of that width, \<^verbatim>\<open>int\<close> has 16 bits, and arithmetic on \<^verbatim>\<open>uint8_t\<close> operands
  is done in \<^verbatim>\<open>int\<close> before the result is stored back.
\<close>

subsection \<open>Types\<close>

type_synonym u8 = "8 word"
type_synonym u16 = "16 word"
type_synonym u32 = "32 word"

type_synonym CRGB = "u8 \<times> u8 \<times> u8"
type_synonym CRGBPalette16 = "CRGB list"

text \<open>The 24 buttons of the remote; \<^verbatim>\<open>commands.h\<close> gives each a code \<^verbatim>\<open>IR_A1\<close> ... \<^verbatim>\<open>IR_F4\<close>.\<close>

datatype button =
    A1 | A2 | A3 | A4
  | B1 | B2 | B3 | B4
  | C1 | C2 | C3 | C4
  | D1 | D2 | D3 | D4
  | E1 | E2 | E3 | E4
  | F1 | F2 | F3 | F4

text \<open>
  What the sketch takes from headers that are not part of the source: the button codes of
  \<^verbatim>\<open>commands.h\<close> and the palette table of \<^verbatim>\<open>gradient_palettes.h\<close>. They are parameters of
  the model. \<open>gGradientPalettes H i\<close> for \<open>i\<close> at or past \<open>gGradientPaletteCount H\<close>
  stands for whatever the read past the end of the table returns.
\<close>

record hdr =
  IR :: "button \<Rightarrow> u32"
  gGradientPaletteCount :: u8
  gGradientPalettes :: "u8 \<Rightarrow> CRGBPalette16"

text \<open>The display routines of the included headers, one per mode of \<^verbatim>\<open>strobe_mode\<close>.\<close>

datatype routine =
    ripple | fillnoise | bubbles | pixel | onesine | rainbowpeak | noisewide | myvumeter
  | jugglep | firewide | trails | plasma | besin | matrix | fire | sinephase

text \<open>
  Calls that leave the control plane are logged in order: writes of the frame buffer by
  \<^verbatim>\<open>fill_solid(leds, n, colour)\<close>, the call of a display routine, \<^verbatim>\<open>FastLED.show()\<close>,
  the blocking \<^verbatim>\<open>FastLED.delay(ms)\<close> and \<^verbatim>\<open>delay(ms)\<close>, and \<^verbatim>\<open>LEDS.setBrightness\<close>.
  Serial output is diagnostic only and is left out.
\<close>

datatype event =
    fill_solid int CRGB
  | Call routine
  | FastLED_show
  | FastLED_delay nat
  | delay nat
  | setBrightness u8

text \<open>The global variables of the sketch that the control plane reads or writes.\<close>

record state =
  NUM_LEDS :: u8
  max_bright :: u8
  currentPalette :: CRGBPalette16
  targetPalette :: CRGBPalette16
  currentPaletteNumber :: u8
  strandActive :: bool
  strandFlag :: bool
  meshdelay :: u16
  ledMode :: u8
  demorun :: u8
  IRProtocol :: u8
  IRAddress :: u16
  IRCommand :: u32
  squelch :: u8
  palchg :: u8
  thisdelay :: u16
  glitter :: bool
  thisdir :: u8
  lastSecond :: u8
  eeprom :: "nat \<Rightarrow> u8"
  trace :: "event list"

text \<open>
  \<open>thisdir\<close> is an \<^verbatim>\<open>int8_t\<close>, kept as its two's complement byte. \<open>lastSecond\<close> is the
  static variable of \<^verbatim>\<open>demo_check\<close>. \<open>eeprom\<close> is the non-volatile store behind
  \<^verbatim>\<open>EEPROM.read\<close> and \<^verbatim>\<open>EEPROM.write\<close>.
\<close>

datatype outcome = Returns state | Reboots state | Hangs

text \<open>
  How a call ends: it returns, it leaves through \<^verbatim>\<open>bootme()\<close> (\<^verbatim>\<open>jmp 0\<close>, with the state
  at the jump), or it never returns.
\<close>

subsection \<open>Constants\<close>

definition MAX_LEDS :: int where "MAX_LEDS = 64"

definition maxMode :: u8 where "maxMode = 17"
definition demotime :: u8 where "demotime = 10"

definition IRL_BLOCKING :: bool where "IRL_BLOCKING = True"

definition ISINIT :: nat where "ISINIT = 0"
definition STARTMODE :: nat where "STARTMODE = 1"
definition STRANDLEN :: nat where "STRANDLEN = 2"
definition STRANDEL :: nat where "STRANDEL = 3"
definition FAV1 :: nat where "FAV1 = 4"
definition FAV2 :: nat where "FAV2 = 5"

definition INITVAL :: u8 where "INITVAL = 0x55"
definition INITMODE :: u8 where "INITMODE = 0"
definition INITLEN :: u8 where "INITLEN = 20"
definition INITDEL :: u8 where "INITDEL = 0"
definition INITFAV :: u8 where "INITFAV = 0"

definition STRANDID :: "hdr \<Rightarrow> u32" where "STRANDID H = IR H A2"

definition Black :: CRGB where "Black = (0, 0, 0)"

subsection \<open>Library calls\<close>

definition emit :: "event \<Rightarrow> state \<Rightarrow> state" where
  "emit e s = s\<lparr>trace := trace s @ [e]\<rparr>"

definition EEPROM_read :: "nat \<Rightarrow> state \<Rightarrow> u8" where
  "EEPROM_read a s = eeprom s a"

definition EEPROM_write :: "nat \<Rightarrow> u8 \<Rightarrow> state \<Rightarrow> state" where
  "EEPROM_write a v s = s\<lparr>eeprom := (eeprom s)(a := v)\<rparr>"

text \<open>
  FastLED's \<^verbatim>\<open>addmod8(a, b, m)\<close>: \<^verbatim>\<open>a += b; while (a >= m) a -= m; return a;\<close>.
  With \<open>m = 0\<close> the loop never ends.
\<close>

partial_function (option) addmod8_while :: "u8 \<Rightarrow> u8 \<Rightarrow> u8 option" where
  "addmod8_while a m = (if m \<le> a then addmod8_while (a - m) m else Some a)"

declare addmod8_while.simps [code]

definition addmod8 :: "u8 \<Rightarrow> u8 \<Rightarrow> u8 \<Rightarrow> u8 option" where
  "addmod8 a b m = addmod8_while (a + b) m"

subsection \<open>The command latch\<close>

definition IREvent :: "u8 \<Rightarrow> u16 \<Rightarrow> u32 \<Rightarrow> state \<Rightarrow> state" where
  "IREvent protocol address command s =
     (if IRL_BLOCKING \<and> IRProtocol s = 0
      then s\<lparr>IRProtocol := protocol, IRAddress := address, IRCommand := command\<rparr>
      else s)"

text \<open>A run of deliveries with no pass of the main loop in between.\<close>

fun deliver :: "(u8 \<times> u16 \<times> u32) list \<Rightarrow> state \<Rightarrow> state" where
  "deliver [] s = s"
| "deliver ((p, a, c) # evs) s = deliver evs (IREvent p a c s)"

subsection \<open>Mesh wait and mode dispatch\<close>

definition meshwait :: "state \<Rightarrow> state" where
  "meshwait s = emit (FastLED_delay (unat (meshdelay s * 100))) s"

text \<open>
  The display routines are not part of the source. Following the specification they only
  consume the shared state and write the frame buffer, so a call is logged and changes no
  variable of the control plane.
\<close>

definition run :: "bool \<Rightarrow> u16 \<Rightarrow> routine \<Rightarrow> state \<Rightarrow> state" where
  "run mc d r s = emit (Call r) (if mc then s\<lparr>thisdelay := d\<rparr> else s)"

definition strobe_mode :: "u8 \<Rightarrow> bool \<Rightarrow> state \<Rightarrow> state" where
  "strobe_mode newMode mc s =
     (let s1 = (if mc then emit (fill_solid (uint (NUM_LEDS s)) (0, 0, 0)) s else s) in
      if newMode = 0 then (if mc then emit (fill_solid (uint (NUM_LEDS s1)) (1, 0, 0)) s1 else s1)
      else if newMode = 1 then run mc 20 ripple s1
      else if newMode = 2 then run mc 40 fillnoise s1
      else if newMode = 3 then run mc 40 bubbles s1
      else if newMode = 4 then run mc 0 pixel s1
      else if newMode = 5 then run mc 30 onesine s1
      else if newMode = 6 then run mc 10 rainbowpeak s1
      else if newMode = 7 then run mc 10 noisewide s1
      else if newMode = 8 then run mc 30 myvumeter s1
      else if newMode = 9 then run mc 10 jugglep s1
      else if newMode = 10 then run mc 10 firewide s1
      else if newMode = 11 then run mc 40 trails s1
      else if newMode = 12 then run mc 20 plasma s1
      else if newMode = 13 then run mc 30 besin s1
      else if newMode = 14 then run mc 40 matrix s1
      else if newMode = 15 then run mc 0 fire s1
      else if newMode = 16 then run mc 30 myvumeter s1
      else if newMode = 17 then run mc 10 sinephase s1
      else s1)"

subsection \<open>Demo scheduler\<close>

text \<open>
  \<open>now\<close> is the value \<^verbatim>\<open>millis()\<close> returns and \<open>rnd\<close> the value \<^verbatim>\<open>random8(0,maxMode)\<close>
  returns in this call. \<^verbatim>\<open>maxMode*demotime\<close> is an \<^verbatim>\<open>int\<close> product, converted to
  \<^verbatim>\<open>unsigned long\<close> for the remainder; the result is stored in a \<^verbatim>\<open>uint8_t\<close>.
\<close>

definition demo_check :: "u32 \<Rightarrow> u8 \<Rightarrow> state \<Rightarrow> state" where
  "demo_check now rnd s =
     (if demorun s \<noteq> 0 then
        (let secondHand = (ucast ((now div 1000) mod (ucast (ucast maxMode * ucast demotime :: u16))) :: u8) in
         if lastSecond s \<noteq> secondHand then
           (let s1 = s\<lparr>lastSecond := secondHand\<rparr> in
            if secondHand mod demotime = 0 then
              (let s2 = (if demorun s1 = 2 then s1\<lparr>ledMode := rnd\<rparr>
                         else s1\<lparr>ledMode := secondHand div demotime\<rparr>);
                   s3 = meshwait s2
               in strobe_mode (ledMode s3) True s3)
            else s1)
         else s)
      else s)"

subsection \<open>Strand configuration\<close>

definition set_strand :: "hdr \<Rightarrow> state \<Rightarrow> state" where
  "set_strand H s =
     (let s1 = (if IRCommand s = IR H B1 then s\<lparr>IRProtocol := 0, strandFlag := True\<rparr> else s) in
      if IRProtocol s1 \<noteq> 0 then
        (let s2 = s1\<lparr>strandFlag := False\<rparr>;
             s3 = (if IRCommand s2 = STRANDID H then s2\<lparr>strandActive := True\<rparr>
                   else s2\<lparr>strandActive := False\<rparr>)
         in s3\<lparr>IRProtocol := 0\<rparr>)
      else s1)"

definition set_strandfav :: "hdr \<Rightarrow> state \<Rightarrow> state" where
  "set_strandfav H s =
     (let s1 = (if strandActive s then
                  (let s' = (if IRCommand s = IR H E1 then EEPROM_write FAV1 (ledMode s) s else s) in
                   if IRCommand s' = IR H E4 then EEPROM_write FAV2 (ledMode s') s' else s')
                else s)
      in s1\<lparr>IRProtocol := 0\<rparr>)"

text \<open>
  \<^verbatim>\<open>NUM_LEDS--; if (NUM_LEDS >255) NUM_LEDS=0;\<close>: the decrement is stored in the
  \<^verbatim>\<open>uint8_t\<close>, then the comparison is made in \<^verbatim>\<open>int\<close>.
\<close>

definition set_strandlen :: "hdr \<Rightarrow> state \<Rightarrow> state" where
  "set_strandlen H s =
     (if strandActive s then
        (let s1 = s\<lparr>demorun := 0\<rparr>;
             s2 = s1\<lparr>ledMode := 0\<rparr>;
             s3 = emit (fill_solid MAX_LEDS Black) s2;
             s4 = (if IRCommand s3 = IR H B2 then
                     (let t = s3\<lparr>NUM_LEDS := NUM_LEDS s3 - 1\<rparr> in
                      if 255 < uint (NUM_LEDS t) then t\<lparr>NUM_LEDS := 0\<rparr> else t)
                   else
                     (let t = s3\<lparr>NUM_LEDS := NUM_LEDS s3 + 1\<rparr> in
                      if MAX_LEDS \<le> uint (NUM_LEDS t) then t\<lparr>NUM_LEDS := word_of_int (MAX_LEDS - 1)\<rparr> else t));
             s5 = emit (fill_solid (uint (NUM_LEDS s4)) (255, 255, 255)) s4
         in EEPROM_write STRANDLEN (NUM_LEDS s5) s5)
      else s)"

text \<open>
  \<^verbatim>\<open>fill_solid\<close> takes an \<^verbatim>\<open>int\<close> count, so the 16-bit \<open>meshdelay\<close> is read as signed
  there; \<^verbatim>\<open>EEPROM.write\<close> takes a \<^verbatim>\<open>uint8_t\<close>, so its low byte is stored.
\<close>

definition set_meshdel :: "hdr \<Rightarrow> state \<Rightarrow> state" where
  "set_meshdel H s =
     (if strandActive s then
        (let s1 = s\<lparr>demorun := 0\<rparr>;
             s2 = s1\<lparr>ledMode := 0\<rparr>;
             s3 = emit (fill_solid MAX_LEDS Black) s2;
             s4 = (if IRCommand s3 = IR H E2 then
                     (let t = s3\<lparr>meshdelay := meshdelay s3 - 1\<rparr> in
                      if 10000 < meshdelay t then t\<lparr>meshdelay := 0\<rparr> else t)
                   else s3\<lparr>meshdelay := meshdelay s3 + 1\<rparr>);
             s5 = emit (fill_solid (sint (meshdelay s4)) (255, 255, 255)) s4
         in EEPROM_write STRANDEL (ucast (meshdelay s5)) s5)
      else s)"

subsection \<open>Command handler\<close>

text \<open>The \<^verbatim>\<open>switch(IRCommand)\<close> statement of \<^verbatim>\<open>getirl\<close>, its cases in the order of the source.\<close>

definition getirl_switch :: "hdr \<Rightarrow> state \<Rightarrow> outcome" where
  "getirl_switch H s =
     (let c = IRCommand s in
      if c = IR H A1 then
        (let s1 = s\<lparr>max_bright := word_of_int (min (uint (max_bright s) * 2) 255)\<rparr>
         in Returns (emit (setBrightness (max_bright s1)) s1))
      else if c = IR H A2 then
        (let s1 = s\<lparr>max_bright := word_of_int (max (uint (max_bright s) div 2) 1)\<rparr>
         in Returns (emit (setBrightness (max_bright s1)) s1))
      else if c = IR H A3 then
        Reboots (emit FastLED_show (emit (fill_solid (uint (NUM_LEDS s)) (0, 0, 0)) s))
      else if c = IR H A4 then
        (let s1 = s\<lparr>demorun := 1\<rparr> in
         if demorun s1 \<noteq> 0 then Returns (meshwait s1) else Returns s1)
      else if c = IR H B1 then Returns (set_strand H s)
      else if c = IR H B2 then Returns (if strandActive s then set_strandlen H s else s)
      else if c = IR H B3 then Returns (if strandActive s then set_strandlen H s else s)
      else if c = IR H B4 then
        (let s1 = s\<lparr>squelch := squelch s - 1\<rparr> in
         Returns (if 240 < squelch s1 then s1\<lparr>squelch := 0\<rparr> else s1))
      else if c = IR H C1 then Returns (s\<lparr>squelch := squelch s + 1\<rparr>)
      else if c = IR H C2 then Returns (s\<lparr>thisdelay := thisdelay s + 1\<rparr>)
      else if c = IR H C3 then
        (let s1 = s\<lparr>thisdelay := thisdelay s - 1\<rparr> in
         Returns (if 30000 < thisdelay s1 then s1\<lparr>thisdelay := 0\<rparr> else s1))
      else if c = IR H C4 then Returns (s\<lparr>thisdir := - thisdir s\<rparr>)
      else if c = IR H D1 then Returns (s\<lparr>glitter := \<not> glitter s\<rparr>)
      else if c = IR H D2 then
        (let s1 = s\<lparr>demorun := 0\<rparr>;
             s2 = s1\<lparr>ledMode := ledMode s1 - 1\<rparr>;
             s3 = (if ledMode s2 = 255 then s2\<lparr>ledMode := maxMode\<rparr> else s2);
             s4 = meshwait s3
         in Returns (strobe_mode (ledMode s4) True s4))
      else if c = IR H D3 then
        (let s1 = s\<lparr>demorun := 0\<rparr>;
             s2 = s1\<lparr>ledMode := word_of_int ((uint (ledMode s1) + 1) mod (uint maxMode + 1))\<rparr>;
             s3 = meshwait s2
         in Returns (strobe_mode (ledMode s3) True s3))
      else if c = IR H D4 then Returns (EEPROM_write STARTMODE (ledMode s) s)
      else if c = IR H E1 then
        (if strandActive s then Returns (set_strandfav H s)
         else
           (let s1 = s\<lparr>demorun := 0\<rparr>;
                s2 = s1\<lparr>ledMode := EEPROM_read FAV1 s1\<rparr>;
                s3 = meshwait s2
            in Returns (strobe_mode (ledMode s3) True s3)))
      else if c = IR H E2 then Returns (if strandActive s then set_meshdel H s else s)
      else if c = IR H E3 then Returns (if strandActive s then set_meshdel H s else s)
      else if c = IR H E4 then
        (if strandActive s then Returns (set_strandfav H s)
         else
           (let s1 = s\<lparr>demorun := 0\<rparr>;
                s2 = s1\<lparr>ledMode := EEPROM_read FAV2 s1\<rparr>;
                s3 = meshwait s2
            in Returns (strobe_mode (ledMode s3) True s3)))
      else if c = IR H F1 then Returns (s\<lparr>palchg := 0\<rparr>)
      else if c = IR H F2 then
        (let s1 = s\<lparr>palchg := 1\<rparr>;
             s2 = s1\<lparr>currentPaletteNumber := currentPaletteNumber s1 - 1\<rparr>;
             s3 = (if currentPaletteNumber s2 = 255
                   then s2\<lparr>currentPaletteNumber := gGradientPaletteCount H\<rparr> else s2)
         in Returns (s3\<lparr>currentPalette := gGradientPalettes H (currentPaletteNumber s3)\<rparr>))
      else if c = IR H F3 then
        (let s1 = s\<lparr>palchg := 2\<rparr> in
         case addmod8 (currentPaletteNumber s1) 1 (gGradientPaletteCount H) of
           None \<Rightarrow> Hangs
         | Some n \<Rightarrow>
             (let s2 = s1\<lparr>currentPaletteNumber := n\<rparr>
              in Returns (s2\<lparr>currentPalette := gGradientPalettes H (currentPaletteNumber s2)\<rparr>)))
      else if c = IR H F4 then Returns (s\<lparr>palchg := 3\<rparr>)
      else Returns s)"

definition getirl :: "hdr \<Rightarrow> state \<Rightarrow> outcome" where
  "getirl H s =
     (if IRProtocol s \<noteq> 0 then
        (let s1 = (if strandFlag s then set_strand H s else s) in
         case getirl_switch H s1 of
           Returns s2 \<Rightarrow> Returns (s2\<lparr>IRProtocol := 0\<rparr>)
         | Reboots s2 \<Rightarrow> Reboots s2
         | Hangs \<Rightarrow> Hangs)
      else Returns s)"

subsection \<open>Start-up\<close>

text \<open>
  The globals as their initialisers leave them when the program starts (at power-on and
  after \<^verbatim>\<open>jmp 0\<close>), over the EEPROM contents \<open>e\<close>, which survive a restart.
\<close>

definition power_on :: "(nat \<Rightarrow> u8) \<Rightarrow> state" where
  "power_on e =
     \<lparr>NUM_LEDS = 0, max_bright = 255,
      currentPalette = replicate 16 Black, targetPalette = replicate 16 Black,
      currentPaletteNumber = 0, strandActive = False, strandFlag = False,
      meshdelay = 0, ledMode = 0, demorun = 0,
      IRProtocol = 0, IRAddress = 0, IRCommand = 0,
      squelch = 0, palchg = 3, thisdelay = 0, glitter = False, thisdir = 1,
      lastSecond = 99, eeprom = e, trace = []\<rparr>"

text \<open>
  The function \<^verbatim>\<open>setup()\<close> of the sketch. The serial port, the interrupt, the LED driver and the random generator
  are set up in calls that touch no variable of the record; of those calls the log keeps
  \<^verbatim>\<open>delay(1000)\<close> and \<^verbatim>\<open>LEDS.setBrightness(max_bright)\<close>.
\<close>

definition setup_sketch :: "hdr \<Rightarrow> state \<Rightarrow> state" where
  "setup_sketch H s =
     (let s1 = emit (delay 1000) s;
          s2 = emit (setBrightness (max_bright s1)) s1;
          s3 = (if EEPROM_read ISINIT s2 \<noteq> INITVAL then
                  (let a = EEPROM_write STARTMODE INITMODE s2;
                       b = EEPROM_write STRANDLEN INITLEN a;
                       c = EEPROM_write ISINIT INITVAL b;
                       d = EEPROM_write STRANDEL INITDEL c;
                       e = EEPROM_write FAV1 INITFAV d
                   in EEPROM_write FAV2 INITFAV e)
                else s2);
          s4 = s3\<lparr>ledMode := EEPROM_read STARTMODE s3\<rparr>;
          s5 = s4\<lparr>NUM_LEDS := EEPROM_read STRANDLEN s4\<rparr>;
          s6 = s5\<lparr>meshdelay := ucast (EEPROM_read STRANDEL s5)\<rparr>;
          s7 = s6\<lparr>currentPalette := replicate 16 Black\<rparr>;
          s8 = s7\<lparr>targetPalette := gGradientPalettes H 0\<rparr>
      in strobe_mode (ledMode s8) True s8)"

text \<open>A start of the program over EEPROM contents \<open>e\<close>.\<close>

definition boot :: "hdr \<Rightarrow> (nat \<Rightarrow> u8) \<Rightarrow> state" where
  "boot H e = setup_sketch H (power_on e)"

subsection \<open>Palette rotation\<close>

text \<open>The body of the \<^verbatim>\<open>EVERY_N_SECONDS(5)\<close> block of \<^verbatim>\<open>loop()\<close>; \<open>None\<close> when it does not return.\<close>

definition loop_EVERY_N_SECONDS_5 :: "hdr \<Rightarrow> state \<Rightarrow> state option" where
  "loop_EVERY_N_SECONDS_5 H s =
     (case (if palchg s = 3
            then map_option (\<lambda>n. s\<lparr>currentPaletteNumber := n\<rparr>)
                   (addmod8 (currentPaletteNumber s) 1 (gGradientPaletteCount H))
            else Some s) of
        None \<Rightarrow> None
      | Some s1 \<Rightarrow> Some (s1\<lparr>targetPalette := gGradientPalettes H (currentPaletteNumber s1)\<rparr>))"

subsection \<open>A concrete remote and palette table\<close>

text \<open>
  An instance of the header parameters, to run the model on concrete inputs: 24 distinct
  button codes and a table of three palettes.
\<close>

definition all_buttons :: "button list" where
  "all_buttons = [A1, A2, A3, A4, B1, B2, B3, B4, C1, C2, C3, C4,
                  D1, D2, D3, D4, E1, E2, E3, E4, F1, F2, F3, F4]"

text \<open>
  The case labels of a \<^verbatim>\<open>switch\<close> are pairwise different, or the sketch does not
  compile.
\<close>

definition distinct_codes :: "hdr \<Rightarrow> bool" where
  "distinct_codes H = distinct (map (IR H) all_buttons)"

fun remote24 :: "button \<Rightarrow> u32" where
  "remote24 A1 = 1" | "remote24 A2 = 2" | "remote24 A3 = 3" | "remote24 A4 = 4"
| "remote24 B1 = 5" | "remote24 B2 = 6" | "remote24 B3 = 7" | "remote24 B4 = 8"
| "remote24 C1 = 9" | "remote24 C2 = 10" | "remote24 C3 = 11" | "remote24 C4 = 12"
| "remote24 D1 = 13" | "remote24 D2 = 14" | "remote24 D3 = 15" | "remote24 D4 = 16"
| "remote24 E1 = 17" | "remote24 E2 = 18" | "remote24 E3 = 19" | "remote24 E4 = 20"
| "remote24 F1 = 21" | "remote24 F2 = 22" | "remote24 F3 = 23" | "remote24 F4 = 24"

definition sample_hdr :: hdr where
  "sample_hdr = \<lparr>IR = remote24, gGradientPaletteCount = 3,
                 gGradientPalettes = (\<lambda>i. replicate 16 (i, i, i))\<rparr>"

section \<open>Basic facts\<close>

lemma codes_eq: "distinct_codes H \<Longrightarrow> (IR H x = IR H y) = (x = y)"
proof -
  assume "distinct_codes H"
  then have "inj_on (IR H) (set all_buttons)"
    by (simp add: distinct_codes_def distinct_map)
  moreover have "set all_buttons = UNIV"
  proof -
    have "b \<in> set all_buttons" for b by (cases b) (simp_all add: all_buttons_def)
    then show ?thesis by blast
  qed
  ultimately show ?thesis by (simp add: inj_on_eq_iff)
qed

lemma distinct_codes_sample: "distinct_codes sample_hdr"
  by (simp add: distinct_codes_def sample_hdr_def all_buttons_def)

text \<open>\<open>strobe_mode\<close> changes the frame delay and the log, and nothing else.\<close>

lemma strobe_mode_fields [simp]:
  "eeprom (strobe_mode m mc s) = eeprom s"
  "ledMode (strobe_mode m mc s) = ledMode s"
  "NUM_LEDS (strobe_mode m mc s) = NUM_LEDS s"
  "meshdelay (strobe_mode m mc s) = meshdelay s"
  "demorun (strobe_mode m mc s) = demorun s"
  "strandActive (strobe_mode m mc s) = strandActive s"
  "strandFlag (strobe_mode m mc s) = strandFlag s"
  "max_bright (strobe_mode m mc s) = max_bright s"
  "lastSecond (strobe_mode m mc s) = lastSecond s"
  "IRProtocol (strobe_mode m mc s) = IRProtocol s"
  "IRCommand (strobe_mode m mc s) = IRCommand s"
  by (simp_all add: strobe_mode_def Let_def run_def emit_def)

text \<open>What it appends to the log depends on the strand length only.\<close>

lemma strobe_mode_trace:
  "trace (strobe_mode m mc s) = trace s @ trace (strobe_mode m mc (s\<lparr>trace := []\<rparr>))"
  by (simp add: strobe_mode_def Let_def run_def emit_def)

lemma strobe_mode_trace_cong:
  "NUM_LEDS s = NUM_LEDS s' \<Longrightarrow>
   trace (strobe_mode m mc (s\<lparr>trace := []\<rparr>)) = trace (strobe_mode m mc (s'\<lparr>trace := []\<rparr>))"
  by (simp add: strobe_mode_def Let_def run_def emit_def)

lemma minus_1_u8: "(- 1 :: u8) = 255"
  by (simp add: word_uint_eq_iff unsigned_minus_1_eq_mask mask_eq_exp_minus_1)

text \<open>With a modulus other than 0 the loop of \<open>addmod8\<close> ends, on the remainder.\<close>

lemma addmod8_while_mod: "m \<noteq> 0 \<Longrightarrow> addmod8_while a m = Some (a mod m)"
proof (induction "unat a" arbitrary: a rule: less_induct)
  case less
  have m0: "0 < unat m" using less.prems by (simp add: unat_gt_0)
  show ?case
  proof (cases "m \<le> a")
    case True
    then have le: "unat m \<le> unat a" by (simp add: word_le_nat_alt)
    have "unat (a - m) < unat a"
      using le m0 True by (simp add: unat_sub)
    then have "addmod8_while (a - m) m = Some ((a - m) mod m)"
      using less by blast
    moreover have "(a - m) mod m = a mod m"
      using True le by (simp add: word_unat_eq_iff unat_mod unat_sub le_mod_geq)
    ultimately show ?thesis using True by (subst addmod8_while.simps) simp
  next
    case False
    then have lt: "unat a < unat m" by (simp add: word_le_nat_alt)
    have "a mod m = a" using lt by (simp add: word_unat_eq_iff unat_mod)
    then show ?thesis using False by (subst addmod8_while.simps) simp
  qed
qed

lemma addmod8_mod: "m \<noteq> 0 \<Longrightarrow> addmod8 a b m = Some ((a + b) mod m)"
  by (simp add: addmod8_def addmod8_while_mod)

text \<open>With the modulus 0 it never returns.\<close>

lemma addmod8_while_zero: "addmod8_while a 0 = None"
proof -
  have "m \<noteq> 0" if "addmod8_while a m = Some y" for a m y
    using that
    by (rule addmod8_while.raw_induct [where P = "\<lambda>a m y. m \<noteq> 0", rotated])
      (auto split: if_splits)
  then show ?thesis by (cases "addmod8_while a 0") auto
qed

section \<open>The command latch\<close>

text \<open>A delivery that finds a command pending is dropped, and so is every one after it.\<close>

lemma deliver_live: "IRProtocol s \<noteq> 0 \<Longrightarrow> deliver evs s = s"
  by (induction evs arbitrary: s) (auto simp: IREvent_def)

lemma deliver_first:
  "IRProtocol s = 0 \<Longrightarrow> p \<noteq> 0 \<Longrightarrow>
   deliver ((p, a, c) # evs) s = s\<lparr>IRProtocol := p, IRAddress := a, IRCommand := c\<rparr>"
  by (simp add: deliver_live IREvent_def IRL_BLOCKING_def)

lemma getirl_Returns_IRProtocol: "getirl H s = Returns t \<Longrightarrow> IRProtocol t = 0"
  by (auto simp: getirl_def Let_def split: if_splits outcome.splits)

text \<open>
  Claim C1. Of a run of deliveries that starts on an empty slot, with a protocol other
  than 0, only the first is stored in \<open>(IRProtocol, IRAddress, IRCommand)\<close>; the later
  ones leave the triple as it is. When \<open>getirl\<close> has handled the command and returned, the
  slot is empty again (\<open>IRProtocol = 0\<close>), and of the next run of deliveries again the
  first one, and only that one, is stored. So one command at most is pending.
\<close>

theorem latch_exclusive:
  assumes "IRProtocol s = 0" and "p \<noteq> 0" and "p' \<noteq> 0"
  shows "deliver ((p, a, c) # evs) s = s\<lparr>IRProtocol := p, IRAddress := a, IRCommand := c\<rparr> \<and>
         (getirl H (deliver ((p, a, c) # evs) s) = Returns t \<longrightarrow>
            IRProtocol t = 0 \<and>
            deliver ((p', a', c') # evs') t =
              t\<lparr>IRProtocol := p', IRAddress := a', IRCommand := c'\<rparr>)"
proof (intro conjI impI)
  show "deliver ((p, a, c) # evs) s = s\<lparr>IRProtocol := p, IRAddress := a, IRCommand := c\<rparr>"
    using assms(1,2) by (rule deliver_first)
next
  assume r: "getirl H (deliver ((p, a, c) # evs) s) = Returns t"
  then show z: "IRProtocol t = 0" by (rule getirl_Returns_IRProtocol)
  show "deliver ((p', a', c') # evs') t = t\<lparr>IRProtocol := p', IRAddress := a', IRCommand := c'\<rparr>"
    using z assms(3) by (rule deliver_first)
qed

text \<open>
  On the sample remote: two deliveries after power-on, button C2 (code 10) first; the
  handler then counts the frame delay up and empties the slot; of the next two deliveries
  button D2 (code 14) is stored.
\<close>

theorem latch_exclusive_witness:
  "IRProtocol (power_on (\<lambda>_. 0)) = 0 \<and>
   deliver [(3, 0, 10), (3, 0, 14)] (power_on (\<lambda>_. 0)) =
     (power_on (\<lambda>_. 0))\<lparr>IRProtocol := 3, IRAddress := 0, IRCommand := 10\<rparr> \<and>
   getirl sample_hdr (deliver [(3, 0, 10), (3, 0, 14)] (power_on (\<lambda>_. 0))) =
     Returns ((power_on (\<lambda>_. 0))\<lparr>IRCommand := 10, thisdelay := 1\<rparr>) \<and>
   deliver [(3, 0, 14), (3, 0, 15)] ((power_on (\<lambda>_. 0))\<lparr>IRCommand := 10, thisdelay := 1\<rparr>) =
     (power_on (\<lambda>_. 0))\<lparr>IRCommand := 10, thisdelay := 1,
        IRProtocol := 3, IRAddress := 0, IRCommand := 14\<rparr>"
proof -
  have h: "IRProtocol (power_on (\<lambda>_. 0)) = 0" by (simp add: power_on_def)
  have n: "(3::u8) \<noteq> 0" by simp
  have e: "getirl sample_hdr (deliver [(3, 0, 10), (3, 0, 14)] (power_on (\<lambda>_. 0))) =
     Returns ((power_on (\<lambda>_. 0))\<lparr>IRCommand := 10, thisdelay := 1\<rparr>)"
    by (simp add: getirl_def getirl_switch_def Let_def power_on_def IREvent_def
        IRL_BLOCKING_def sample_hdr_def)
  from latch_exclusive [OF h n n, of 0 10 "[(3, 0, 14)]" sample_hdr _ 0 14 "[(3, 0, 15)]"] e h
  show ?thesis by simp
qed

section \<open>First boot\<close>

lemma setup_eeprom:
  "eeprom (setup_sketch H s) =
    (if eeprom s ISINIT \<noteq> INITVAL
     then (eeprom s)(STARTMODE := INITMODE, STRANDLEN := INITLEN, ISINIT := INITVAL,
                     STRANDEL := INITDEL, FAV1 := INITFAV, FAV2 := INITFAV)
     else eeprom s)"
  by (simp add: setup_sketch_def Let_def emit_def EEPROM_read_def EEPROM_write_def)

text \<open>
  Claim C5. When the sentinel location \<open>ISINIT\<close> does not hold \<open>INITVAL\<close>, the start-up
  writes the defaults: start mode 0, strand length 20, mesh delay 0, both favourites 0,
  and the sentinel. Reading back gives these values (also in \<open>ledMode\<close>, \<open>NUM_LEDS\<close> and
  \<open>meshdelay\<close>), and a second start-up on the resulting storage changes no location.
\<close>

theorem first_boot_defaults:
  assumes "e ISINIT \<noteq> INITVAL"
  shows "eeprom (boot H e) ISINIT = INITVAL \<and>
         eeprom (boot H e) STARTMODE = 0 \<and>
         eeprom (boot H e) STRANDLEN = 20 \<and>
         eeprom (boot H e) STRANDEL = 0 \<and>
         eeprom (boot H e) FAV1 = 0 \<and>
         eeprom (boot H e) FAV2 = 0 \<and>
         ledMode (boot H e) = 0 \<and> NUM_LEDS (boot H e) = 20 \<and> meshdelay (boot H e) = 0 \<and>
         eeprom (boot H (eeprom (boot H e))) = eeprom (boot H e) \<and>
         eeprom (setup_sketch H (boot H e)) = eeprom (boot H e)"
proof -
  have e1: "eeprom (boot H e) =
      e(STARTMODE := INITMODE, STRANDLEN := INITLEN, ISINIT := INITVAL,
        STRANDEL := INITDEL, FAV1 := INITFAV, FAV2 := INITFAV)"
    using assms by (simp add: boot_def setup_eeprom power_on_def)
  have s: "eeprom (boot H e) ISINIT = INITVAL"
    by (simp add: e1 ISINIT_def STARTMODE_def STRANDLEN_def STRANDEL_def FAV1_def FAV2_def)
  have again: "eeprom (boot H (eeprom (boot H e))) = eeprom (boot H e)"
    using s by (simp add: boot_def setup_eeprom power_on_def)
  have again': "eeprom (setup_sketch H (boot H e)) = eeprom (boot H e)"
    using s by (simp add: setup_eeprom)
  have vars: "ledMode (boot H e) = 0 \<and> NUM_LEDS (boot H e) = 20 \<and> meshdelay (boot H e) = 0"
    using assms
    by (simp add: boot_def setup_sketch_def Let_def emit_def EEPROM_read_def EEPROM_write_def
        power_on_def ISINIT_def STARTMODE_def STRANDLEN_def STRANDEL_def FAV1_def FAV2_def
        INITMODE_def INITLEN_def INITDEL_def INITFAV_def)
  show ?thesis
    using s again again' vars
    by (simp add: e1 ISINIT_def STARTMODE_def STRANDLEN_def STRANDEL_def FAV1_def FAV2_def
        INITMODE_def INITLEN_def INITDEL_def INITFAV_def)
qed

text \<open>On erased storage (every byte 255): locations 0 to 5 get the defaults, location 6 is untouched.\<close>

theorem first_boot_defaults_witness:
  "(\<lambda>_. 255 :: u8) ISINIT \<noteq> INITVAL \<and>
   map (eeprom (boot sample_hdr (\<lambda>_. 255))) [0, 1, 2, 3, 4, 5, 6] = [0x55, 0, 20, 0, 0, 0, 255] \<and>
   NUM_LEDS (boot sample_hdr (\<lambda>_. 255)) = 20 \<and>
   map (eeprom (boot sample_hdr (eeprom (boot sample_hdr (\<lambda>_. 255))))) [0, 1, 2, 3, 4, 5, 6] =
     [0x55, 0, 20, 0, 0, 0, 255]"
proof -
  have h: "(\<lambda>_. 255 :: u8) ISINIT \<noteq> INITVAL" by (simp add: INITVAL_def)
  have six: "eeprom (boot sample_hdr (\<lambda>_. 255)) 6 = 255"
    by (simp add: boot_def setup_eeprom power_on_def ISINIT_def STARTMODE_def STRANDLEN_def
        STRANDEL_def FAV1_def FAV2_def)
  from first_boot_defaults [OF h, of sample_hdr] h six
  show ?thesis
    by (simp add: ISINIT_def STARTMODE_def STRANDLEN_def STRANDEL_def FAV1_def FAV2_def INITVAL_def)
qed

section \<open>The handler on a mode-changing command\<close>

text \<open>
  A command other than B1 that finds a strand selection pending settles the selection
  first; the switch then runs on the state so reached.
\<close>

lemma set_strand_other:
  "IRCommand s \<noteq> IR H B1 \<Longrightarrow> IRProtocol s \<noteq> 0 \<Longrightarrow>
   set_strand H s = s\<lparr>strandFlag := False, strandActive := (IRCommand s = STRANDID H), IRProtocol := 0\<rparr>"
  by (simp add: set_strand_def Let_def)

lemma getirl_unfold:
  "IRProtocol s \<noteq> 0 \<Longrightarrow> IRCommand s \<noteq> IR H B1 \<Longrightarrow>
   getirl H s =
     (case getirl_switch H
        (if strandFlag s
         then s\<lparr>strandFlag := False, strandActive := (IRCommand s = STRANDID H), IRProtocol := 0\<rparr>
         else s) of
        Returns s2 \<Rightarrow> Returns (s2\<lparr>IRProtocol := 0\<rparr>)
      | Reboots s2 \<Rightarrow> Reboots s2
      | Hangs \<Rightarrow> Hangs)"
  by (simp add: getirl_def Let_def set_strand_other)

text \<open>
  The four mode-changing cases share their tail: demo mode off, the new mode stored, the
  mesh wait, then the initialising call of \<open>strobe_mode\<close>.
\<close>

lemma mode_entry_facts:
  "demorun (strobe_mode m True (meshwait (s\<lparr>demorun := 0, ledMode := m\<rparr>))) = 0"
  "ledMode (strobe_mode m True (meshwait (s\<lparr>demorun := 0, ledMode := m\<rparr>))) = m"
  "trace (strobe_mode m True (meshwait (s\<lparr>demorun := 0, ledMode := m\<rparr>))) =
     trace s @ FastLED_delay (unat (meshdelay s * 100)) #
       trace (strobe_mode m True (s\<lparr>trace := []\<rparr>))"
proof -
  let ?w = "meshwait (s\<lparr>demorun := 0, ledMode := m\<rparr>)"
  show "demorun (strobe_mode m True ?w) = 0" "ledMode (strobe_mode m True ?w) = m"
    by (simp_all add: meshwait_def emit_def)
  have "trace (strobe_mode m True ?w) =
     (trace s @ [FastLED_delay (unat (meshdelay s * 100))]) @
     trace (strobe_mode m True (?w\<lparr>trace := []\<rparr>))"
    by (subst strobe_mode_trace) (simp add: meshwait_def emit_def)
  moreover have "trace (strobe_mode m True (?w\<lparr>trace := []\<rparr>))
      = trace (strobe_mode m True (s\<lparr>trace := []\<rparr>))"
    by (rule strobe_mode_trace_cong) (simp add: meshwait_def emit_def)
  ultimately show "trace (strobe_mode m True ?w) =
     trace s @ FastLED_delay (unat (meshdelay s * 100)) #
       trace (strobe_mode m True (s\<lparr>trace := []\<rparr>))"
    by simp
qed

lemma switch_mode_change:
  assumes "distinct_codes H"
  shows "IRCommand s = IR H D2 \<Longrightarrow>
           getirl_switch H s =
           Returns (strobe_mode (if ledMode s - 1 = 255 then maxMode else ledMode s - 1) True
             (meshwait (s\<lparr>demorun := 0,
                ledMode := (if ledMode s - 1 = 255 then maxMode else ledMode s - 1)\<rparr>)))"
    and "IRCommand s = IR H D3 \<Longrightarrow>
           getirl_switch H s =
           Returns (strobe_mode (word_of_int ((uint (ledMode s) + 1) mod (uint maxMode + 1))) True
             (meshwait (s\<lparr>demorun := 0,
                ledMode := word_of_int ((uint (ledMode s) + 1) mod (uint maxMode + 1))\<rparr>)))"
    and "IRCommand s = IR H E1 \<Longrightarrow> \<not> strandActive s \<Longrightarrow>
           getirl_switch H s =
           Returns (strobe_mode (eeprom s FAV1) True
             (meshwait (s\<lparr>demorun := 0, ledMode := eeprom s FAV1\<rparr>)))"
    and "IRCommand s = IR H E4 \<Longrightarrow> \<not> strandActive s \<Longrightarrow>
           getirl_switch H s =
           Returns (strobe_mode (eeprom s FAV2) True
             (meshwait (s\<lparr>demorun := 0, ledMode := eeprom s FAV2\<rparr>)))"
  using assms
  by (simp_all add: getirl_switch_def Let_def codes_eq EEPROM_read_def meshwait_def emit_def)


lemma mode_entry_after_switch:
  assumes "IRProtocol s \<noteq> 0" and "IRCommand s \<noteq> IR H B1"
    and "s1 = (if strandFlag s
               then s\<lparr>strandFlag := False, strandActive := (IRCommand s = STRANDID H), IRProtocol := 0\<rparr>
               else s)"
    and "getirl_switch H s1 =
           Returns (strobe_mode m True (meshwait (s1\<lparr>demorun := 0, ledMode := m\<rparr>)))"
  shows "\<exists>t. getirl H s = Returns t \<and> ledMode t = m \<and> demorun t = 0 \<and>
             trace t = trace s @ FastLED_delay (unat (meshdelay s * 100)) #
               trace (strobe_mode m True (s\<lparr>trace := []\<rparr>)) \<and>
             eeprom t = eeprom s"
proof -
  let ?r = "strobe_mode m True (meshwait (s1\<lparr>demorun := 0, ledMode := m\<rparr>))"
  have g: "getirl H s = Returns (?r\<lparr>IRProtocol := 0\<rparr>)"
    using assms by (simp add: getirl_unfold)
  have same: "NUM_LEDS s1 = NUM_LEDS s" "trace s1 = trace s" "meshdelay s1 = meshdelay s"
             "eeprom s1 = eeprom s"
    using assms(3) by simp_all
  have "trace (strobe_mode m True (s1\<lparr>trace := []\<rparr>)) = trace (strobe_mode m True (s\<lparr>trace := []\<rparr>))"
    using same(1) by (rule strobe_mode_trace_cong)
  then have "trace ?r = trace s @ FastLED_delay (unat (meshdelay s * 100)) #
               trace (strobe_mode m True (s\<lparr>trace := []\<rparr>))"
    by (simp add: mode_entry_facts(3) same)
  moreover have "eeprom ?r = eeprom s"
    by (simp add: meshwait_def emit_def same)
  ultimately show ?thesis
    using g by (simp add: meshwait_def emit_def)
qed

lemma getirl_mode_change:
  assumes "distinct_codes H" and "IRProtocol s \<noteq> 0"
  shows "IRCommand s = IR H D2 \<Longrightarrow> m = (if ledMode s - 1 = 255 then maxMode else ledMode s - 1) \<Longrightarrow>
         \<exists>t. getirl H s = Returns t \<and> ledMode t = m \<and> demorun t = 0 \<and>
             trace t = trace s @ FastLED_delay (unat (meshdelay s * 100)) #
               trace (strobe_mode m True (s\<lparr>trace := []\<rparr>)) \<and>
             eeprom t = eeprom s"
    and "IRCommand s = IR H D3 \<Longrightarrow> m = word_of_int ((uint (ledMode s) + 1) mod (uint maxMode + 1)) \<Longrightarrow>
         \<exists>t. getirl H s = Returns t \<and> ledMode t = m \<and> demorun t = 0 \<and>
             trace t = trace s @ FastLED_delay (unat (meshdelay s * 100)) #
               trace (strobe_mode m True (s\<lparr>trace := []\<rparr>)) \<and>
             eeprom t = eeprom s"
    and "IRCommand s = IR H E1 \<Longrightarrow> \<not> strandActive s \<Longrightarrow> m = eeprom s FAV1 \<Longrightarrow>
         \<exists>t. getirl H s = Returns t \<and> ledMode t = m \<and> demorun t = 0 \<and>
             trace t = trace s @ FastLED_delay (unat (meshdelay s * 100)) #
               trace (strobe_mode m True (s\<lparr>trace := []\<rparr>)) \<and>
             eeprom t = eeprom s"
    and "IRCommand s = IR H E4 \<Longrightarrow> \<not> strandActive s \<Longrightarrow> m = eeprom s FAV2 \<Longrightarrow>
         \<exists>t. getirl H s = Returns t \<and> ledMode t = m \<and> demorun t = 0 \<and>
             trace t = trace s @ FastLED_delay (unat (meshdelay s * 100)) #
               trace (strobe_mode m True (s\<lparr>trace := []\<rparr>)) \<and>
             eeprom t = eeprom s"
proof -
  let ?s1 = "if strandFlag s
             then s\<lparr>strandFlag := False, strandActive := (IRCommand s = STRANDID H), IRProtocol := 0\<rparr>
             else s"
  note d = assms(1)
  show "\<exists>t. getirl H s = Returns t \<and> ledMode t = m \<and> demorun t = 0 \<and>
             trace t = trace s @ FastLED_delay (unat (meshdelay s * 100)) #
               trace (strobe_mode m True (s\<lparr>trace := []\<rparr>)) \<and>
             eeprom t = eeprom s"
    if c: "IRCommand s = IR H D2" and m: "m = (if ledMode s - 1 = 255 then maxMode else ledMode s - 1)"
  proof (rule mode_entry_after_switch [OF assms(2) _ refl])
    show "IRCommand s \<noteq> IR H B1" using c d by (simp add: codes_eq)
    have "IRCommand ?s1 = IR H D2" "ledMode ?s1 = ledMode s" using c by simp_all
    then show "getirl_switch H ?s1 = Returns (strobe_mode m True (meshwait (?s1\<lparr>demorun := 0, ledMode := m\<rparr>)))"
      using switch_mode_change(1) [OF d, of ?s1] m by simp
  qed
  show "\<exists>t. getirl H s = Returns t \<and> ledMode t = m \<and> demorun t = 0 \<and>
             trace t = trace s @ FastLED_delay (unat (meshdelay s * 100)) #
               trace (strobe_mode m True (s\<lparr>trace := []\<rparr>)) \<and>
             eeprom t = eeprom s"
    if c: "IRCommand s = IR H D3" and m: "m = word_of_int ((uint (ledMode s) + 1) mod (uint maxMode + 1))"
  proof (rule mode_entry_after_switch [OF assms(2) _ refl])
    show "IRCommand s \<noteq> IR H B1" using c d by (simp add: codes_eq)
    have "IRCommand ?s1 = IR H D3" "ledMode ?s1 = ledMode s" using c by simp_all
    then show "getirl_switch H ?s1 = Returns (strobe_mode m True (meshwait (?s1\<lparr>demorun := 0, ledMode := m\<rparr>)))"
      using switch_mode_change(2) [OF d, of ?s1] m by simp
  qed
  show "\<exists>t. getirl H s = Returns t \<and> ledMode t = m \<and> demorun t = 0 \<and>
             trace t = trace s @ FastLED_delay (unat (meshdelay s * 100)) #
               trace (strobe_mode m True (s\<lparr>trace := []\<rparr>)) \<and>
             eeprom t = eeprom s"
    if c: "IRCommand s = IR H E1" and a: "\<not> strandActive s" and m: "m = eeprom s FAV1"
  proof (rule mode_entry_after_switch [OF assms(2) _ refl])
    show "IRCommand s \<noteq> IR H B1" using c d by (simp add: codes_eq)
    have "IRCommand ?s1 = IR H E1" "eeprom ?s1 = eeprom s" "\<not> strandActive ?s1"
      using c a d by (simp_all add: STRANDID_def codes_eq)
    then show "getirl_switch H ?s1 = Returns (strobe_mode m True (meshwait (?s1\<lparr>demorun := 0, ledMode := m\<rparr>)))"
      using switch_mode_change(3) [OF d, of ?s1] m by simp
  qed
  show "\<exists>t. getirl H s = Returns t \<and> ledMode t = m \<and> demorun t = 0 \<and>
             trace t = trace s @ FastLED_delay (unat (meshdelay s * 100)) #
               trace (strobe_mode m True (s\<lparr>trace := []\<rparr>)) \<and>
             eeprom t = eeprom s"
    if c: "IRCommand s = IR H E4" and a: "\<not> strandActive s" and m: "m = eeprom s FAV2"
  proof (rule mode_entry_after_switch [OF assms(2) _ refl])
    show "IRCommand s \<noteq> IR H B1" using c d by (simp add: codes_eq)
    have "IRCommand ?s1 = IR H E4" "eeprom ?s1 = eeprom s" "\<not> strandActive ?s1"
      using c a d by (simp_all add: STRANDID_def codes_eq)
    then show "getirl_switch H ?s1 = Returns (strobe_mode m True (meshwait (?s1\<lparr>demorun := 0, ledMode := m\<rparr>)))"
      using switch_mode_change(4) [OF d, of ?s1] m by simp
  qed
qed

section \<open>Mode cycling\<close>

lemma next_arith: "uint (word_of_int ((uint (m::u8) + 1) mod (uint maxMode + 1)) :: u8) = (uint m + 1) mod (uint maxMode + 1)"
  by (simp add: maxMode_def uint_word_of_int)

lemma prev_arith:
  assumes "(m::u8) \<le> maxMode"
  shows "uint (if m - 1 = 255 then maxMode else m - 1) = (uint m - 1) mod (uint maxMode + 1)"
proof (cases "m = 0")
  case True
  then show ?thesis by (simp add: maxMode_def)
next
  case False
  then have pos: "0 < uint m" by (simp add: word_greater_zero_iff uint_0_iff less_le)
  have le: "uint m \<le> 17" using assms by (simp add: maxMode_def word_le_def)
  have u: "uint (m - 1) = uint m - 1"
    using pos uint_sub_lem [of 1 m] by simp
  have "m - 1 \<noteq> 255"
  proof
    assume "m - 1 = 255"
    then have "uint (m - 1) = 255" by simp
    with u le show False by simp
  qed
  then show ?thesis using u pos le by (simp add: maxMode_def)
qed


text \<open>
  Claim C6. For a current mode in \<open>0..maxMode\<close>, button D3 (next mode) gives
  \<open>(mode + 1) mod (maxMode + 1)\<close>, so mode 0 after the last mode; button D2 (previous
  mode) gives \<open>(mode - 1) mod (maxMode + 1)\<close>, so the last mode before mode 0.
\<close>

theorem mode_cycling:
  assumes "distinct_codes H" and "IRProtocol s \<noteq> 0" and "ledMode s \<le> maxMode"
  shows "(IRCommand s = IR H D3 \<longrightarrow>
            (\<exists>t. getirl H s = Returns t \<and>
                 uint (ledMode t) = (uint (ledMode s) + 1) mod (uint maxMode + 1) \<and>
                 (ledMode s = maxMode \<longrightarrow> ledMode t = 0))) \<and>
         (IRCommand s = IR H D2 \<longrightarrow>
            (\<exists>t. getirl H s = Returns t \<and>
                 uint (ledMode t) = (uint (ledMode s) - 1) mod (uint maxMode + 1) \<and>
                 (ledMode s = 0 \<longrightarrow> ledMode t = maxMode)))"
proof (intro conjI impI)
  assume c: "IRCommand s = IR H D3"
  from getirl_mode_change(2) [OF assms(1,2) c refl] obtain t where
    t: "getirl H s = Returns t"
       "ledMode t = word_of_int ((uint (ledMode s) + 1) mod (uint maxMode + 1))"
    by blast
  have "uint (ledMode t) = (uint (ledMode s) + 1) mod (uint maxMode + 1)"
    by (simp only: t(2) next_arith)
  moreover have "ledMode s = maxMode \<longrightarrow> ledMode t = 0"
    by (simp add: t(2) maxMode_def)
  ultimately show "\<exists>t. getirl H s = Returns t \<and>
      uint (ledMode t) = (uint (ledMode s) + 1) mod (uint maxMode + 1) \<and>
      (ledMode s = maxMode \<longrightarrow> ledMode t = 0)"
    using t(1) by blast
next
  assume c: "IRCommand s = IR H D2"
  from getirl_mode_change(1) [OF assms(1,2) c refl] obtain t where
    t: "getirl H s = Returns t"
       "ledMode t = (if ledMode s - 1 = 255 then maxMode else ledMode s - 1)"
    by blast
  have "uint (ledMode t) = (uint (ledMode s) - 1) mod (uint maxMode + 1)"
    by (simp only: t(2) prev_arith [OF assms(3)])
  moreover have "ledMode s = 0 \<longrightarrow> ledMode t = maxMode"
    by (simp add: t(2))
  ultimately show "\<exists>t. getirl H s = Returns t \<and>
      uint (ledMode t) = (uint (ledMode s) - 1) mod (uint maxMode + 1) \<and>
      (ledMode s = 0 \<longrightarrow> ledMode t = maxMode)"
    using t(1) by blast
qed


text \<open>On the sample remote: next from mode 17 is mode 0, previous from mode 0 is mode 17.\<close>

theorem mode_cycling_witness:
  "distinct_codes sample_hdr \<and>
   (\<exists>t. getirl sample_hdr ((power_on (\<lambda>_. 0))\<lparr>IRProtocol := 3, IRCommand := 15, ledMode := 17\<rparr>) = Returns t \<and>
        ledMode t = 0) \<and>
   (\<exists>t. getirl sample_hdr ((power_on (\<lambda>_. 0))\<lparr>IRProtocol := 3, IRCommand := 14, ledMode := 0\<rparr>) = Returns t \<and>
        ledMode t = 17)"
proof -
  have d: "distinct_codes sample_hdr" by (rule distinct_codes_sample)
  have a: "IRProtocol ((power_on (\<lambda>_. 0))\<lparr>IRProtocol := 3, IRCommand := 15, ledMode := 17\<rparr>) \<noteq> 0"
          "ledMode ((power_on (\<lambda>_. 0))\<lparr>IRProtocol := 3, IRCommand := 15, ledMode := 17\<rparr>) \<le> maxMode"
    by (simp_all add: maxMode_def)
  have b: "IRProtocol ((power_on (\<lambda>_. 0))\<lparr>IRProtocol := 3, IRCommand := 14, ledMode := 0\<rparr>) \<noteq> 0"
          "ledMode ((power_on (\<lambda>_. 0))\<lparr>IRProtocol := 3, IRCommand := 14, ledMode := 0\<rparr>) \<le> maxMode"
    by (simp_all add: maxMode_def)
  from mode_cycling [OF d a] mode_cycling [OF d b] d
  show ?thesis by (auto simp add: sample_hdr_def maxMode_def)
qed

section \<open>Mesh wait before the first frame\<close>

text \<open>
  Claim C7. On button D2 or D3, and on E1 or E4 when the strand is not active, the
  handler returns with demo mode off, and what it adds to the log is the mesh wait
  \<open>FastLED.delay(meshdelay * 100)\<close> followed by the events of the initialising call
  \<open>strobe_mode(ledMode, 1)\<close> for the new mode: the first frame of the new mode comes
  after the wait.
\<close>

theorem mesh_wait_before_first_frame:
  assumes "distinct_codes H" and "IRProtocol s \<noteq> 0"
    and "IRCommand s = IR H D2 \<or> IRCommand s = IR H D3 \<or>
         (\<not> strandActive s \<and> (IRCommand s = IR H E1 \<or> IRCommand s = IR H E4))"
  shows "\<exists>t. getirl H s = Returns t \<and> demorun t = 0 \<and>
             trace t = trace s @ FastLED_delay (unat (meshdelay s * 100)) #
               trace (strobe_mode (ledMode t) True (s\<lparr>trace := []\<rparr>))"
proof -
  from assms(3) consider
      (D2) "IRCommand s = IR H D2"
    | (D3) "IRCommand s = IR H D3"
    | (E1) "IRCommand s = IR H E1" "\<not> strandActive s"
    | (E4) "IRCommand s = IR H E4" "\<not> strandActive s"
    by blast
  then show ?thesis
  proof cases
    case D2
    from getirl_mode_change(1) [OF assms(1,2) D2 refl] show ?thesis by auto
  next
    case D3
    from getirl_mode_change(2) [OF assms(1,2) D3 refl] show ?thesis by auto
  next
    case E1
    from getirl_mode_change(3) [OF assms(1,2) E1 refl] show ?thesis by auto
  next
    case E4
    from getirl_mode_change(4) [OF assms(1,2) E4 refl] show ?thesis by auto
  qed
qed

text \<open>
  Button D3 in mode 4 with a mesh delay of 2 units and 20 LEDs, demo mode on: demo mode
  goes off; a wait of 200 ms, then the buffer is cleared and the routine of mode 5 runs.
\<close>

theorem mesh_wait_before_first_frame_witness:
  "distinct_codes sample_hdr \<and>
   getirl sample_hdr ((power_on (\<lambda>_. 0))\<lparr>IRProtocol := 3, IRCommand := 15, ledMode := 4,
        NUM_LEDS := 20, meshdelay := 2, demorun := 1\<rparr>) =
     Returns ((power_on (\<lambda>_. 0))\<lparr>IRCommand := 15, ledMode := 5, NUM_LEDS := 20, meshdelay := 2,
        thisdelay := 30,
        trace := [FastLED_delay 200, fill_solid 20 (0, 0, 0), Call onesine]\<rparr>) \<and>
   (\<exists>t. getirl sample_hdr ((power_on (\<lambda>_. 0))\<lparr>IRProtocol := 3, IRCommand := 15, ledMode := 4,
        NUM_LEDS := 20, meshdelay := 2, demorun := 1\<rparr>) = Returns t \<and> demorun t = 0 \<and>
      trace t = [FastLED_delay 200, fill_solid 20 (0, 0, 0), Call onesine])"
proof -
  let ?s = "(power_on (\<lambda>_. 0))\<lparr>IRProtocol := 3, IRCommand := 15, ledMode := 4,
        NUM_LEDS := 20, meshdelay := 2, demorun := 1\<rparr>"
  have d: "distinct_codes sample_hdr" by (rule distinct_codes_sample)
  have p: "IRProtocol ?s \<noteq> 0" by simp
  have c: "IRCommand ?s = IR sample_hdr D2 \<or> IRCommand ?s = IR sample_hdr D3 \<or>
         (\<not> strandActive ?s \<and> (IRCommand ?s = IR sample_hdr E1 \<or> IRCommand ?s = IR sample_hdr E4))"
    by (simp add: sample_hdr_def)
  have e: "getirl sample_hdr ?s =
     Returns ((power_on (\<lambda>_. 0))\<lparr>IRCommand := 15, ledMode := 5, NUM_LEDS := 20, meshdelay := 2,
        thisdelay := 30,
        trace := [FastLED_delay 200, fill_solid 20 (0, 0, 0), Call onesine]\<rparr>)"
    by (simp add: getirl_def getirl_switch_def Let_def power_on_def sample_hdr_def maxMode_def
        meshwait_def emit_def strobe_mode_def run_def)
  from mesh_wait_before_first_frame [OF d p c] e d
  show ?thesis by auto
qed

section \<open>A selection pending on an active strand\<close>

text \<open>
  A start on initialised storage that holds start mode 7, mesh delay 5 and favourite 3.
\<close>

lemma boot_initialised:
  "boot sample_hdr ((\<lambda>_. 0)(ISINIT := INITVAL, STARTMODE := 7, STRANDEL := 5, FAV1 := 3)) =
     (power_on ((\<lambda>_. 0)(ISINIT := INITVAL, STARTMODE := 7, STRANDEL := 5, FAV1 := 3)))
       \<lparr>ledMode := 7, meshdelay := 5, thisdelay := 10, trace := [delay 1000, setBrightness 255, fill_solid 0 (0, 0, 0), Call noisewide]\<rparr>"
  by (simp add: boot_def setup_sketch_def power_on_def Let_def emit_def EEPROM_read_def
      strobe_mode_def run_def sample_hdr_def ISINIT_def INITVAL_def STARTMODE_def STRANDLEN_def
      STRANDEL_def FAV1_def Black_def)

text \<open>
  A strand selection can be pending on an active strand: after that start, button B1
  (code 5) opens a selection, button A2 (code 2, the \<open>STRANDID\<close>) activates the strand, and
  button B1 opens a selection again.
\<close>

lemma selection_pending_on_active_strand:
  "getirl sample_hdr (IREvent 3 0 5 (boot sample_hdr ((\<lambda>_. 0)(ISINIT := INITVAL, STARTMODE := 7, STRANDEL := 5, FAV1 := 3)))) =
     Returns ((boot sample_hdr ((\<lambda>_. 0)(ISINIT := INITVAL, STARTMODE := 7, STRANDEL := 5, FAV1 := 3)))
       \<lparr>IRCommand := 5, strandFlag := True\<rparr>) \<and>
   getirl sample_hdr (IREvent 3 0 2 ((boot sample_hdr ((\<lambda>_. 0)(ISINIT := INITVAL, STARTMODE := 7, STRANDEL := 5, FAV1 := 3)))
       \<lparr>IRCommand := 5, strandFlag := True\<rparr>)) =
     Returns ((boot sample_hdr ((\<lambda>_. 0)(ISINIT := INITVAL, STARTMODE := 7, STRANDEL := 5, FAV1 := 3)))
       \<lparr>IRCommand := 2, strandActive := True, max_bright := 127,
         trace := [delay 1000, setBrightness 255, fill_solid 0 (0, 0, 0), Call noisewide] @ [setBrightness 127]\<rparr>) \<and>
   getirl sample_hdr (IREvent 3 0 5 ((boot sample_hdr ((\<lambda>_. 0)(ISINIT := INITVAL, STARTMODE := 7, STRANDEL := 5, FAV1 := 3)))
       \<lparr>IRCommand := 2, strandActive := True, max_bright := 127,
         trace := [delay 1000, setBrightness 255, fill_solid 0 (0, 0, 0), Call noisewide] @ [setBrightness 127]\<rparr>)) =
     Returns ((boot sample_hdr ((\<lambda>_. 0)(ISINIT := INITVAL, STARTMODE := 7, STRANDEL := 5, FAV1 := 3)))
       \<lparr>IRCommand := 5, strandActive := True, strandFlag := True, max_bright := 127,
         trace := [delay 1000, setBrightness 255, fill_solid 0 (0, 0, 0), Call noisewide] @ [setBrightness 127]\<rparr>)"
  unfolding boot_initialised
  by (simp add: getirl_def getirl_switch_def set_strand_def Let_def IREvent_def
      IRL_BLOCKING_def power_on_def emit_def sample_hdr_def STRANDID_def)

section \<open>Favourites\<close>

lemma switch_set_fav:
  "distinct_codes H \<Longrightarrow> IRCommand s = IR H E1 \<Longrightarrow> strandActive s \<Longrightarrow>
   getirl_switch H s = Returns (s\<lparr>eeprom := (eeprom s)(FAV1 := ledMode s), IRProtocol := 0\<rparr>)"
  by (simp add: getirl_switch_def Let_def codes_eq set_strandfav_def EEPROM_write_def)

text \<open>
  Claim C9, amended. With the strand active, no strand selection pending
  (\<open>strandFlag = 0\<close>) and current mode \<open>m\<close>, button E1 writes \<open>m\<close> to the EEPROM location
  \<open>FAV1\<close>. A later E1, received in a state where the strand is not active and \<open>FAV1\<close>
  still holds that value, sets the current mode to \<open>m\<close>.
\<close>

theorem favorite_round_trip:
  assumes "distinct_codes H"
    and "IRProtocol s \<noteq> 0" and "IRCommand s = IR H E1" and "strandActive s" and "\<not> strandFlag s"
    and "IRProtocol t \<noteq> 0" and "IRCommand t = IR H E1" and "\<not> strandActive t"
  shows "\<exists>s'. getirl H s = Returns s' \<and> eeprom s' FAV1 = ledMode s \<and>
           (eeprom t FAV1 = eeprom s' FAV1 \<longrightarrow>
              (\<exists>t'. getirl H t = Returns t' \<and> ledMode t' = ledMode s))"
proof -
  have b: "IRCommand s \<noteq> IR H B1" using assms(1,3) by (simp add: codes_eq)
  have g: "getirl H s = Returns (s\<lparr>eeprom := (eeprom s)(FAV1 := ledMode s), IRProtocol := 0\<rparr>)"
    using assms(2,5) b switch_set_fav [OF assms(1,3,4)] by (simp add: getirl_unfold)
  have "\<exists>t'. getirl H t = Returns t' \<and> ledMode t' = ledMode s" if "eeprom t FAV1 = ledMode s"
    using getirl_mode_change(3) [OF assms(1) assms(6,7,8) refl] that by auto
  then show ?thesis using g by simp
qed

text \<open>
  Mode 7 is stored as favourite 1 on an initialised board; the board is restarted (it
  comes up in its start mode 0, the strand not active); button E1 then selects mode 7.
\<close>

theorem favorite_round_trip_witness:
  "getirl sample_hdr ((power_on ((\<lambda>_. 0)(0 := 0x55)))\<lparr>IRProtocol := 3, IRCommand := 17,
        strandActive := True, ledMode := 7\<rparr>) =
     Returns ((power_on ((\<lambda>_. 0)(0 := 0x55)))\<lparr>IRCommand := 17, strandActive := True, ledMode := 7,
        eeprom := (\<lambda>_. 0)(0 := 0x55, 4 := 7)\<rparr>) \<and>
   ledMode (boot sample_hdr ((\<lambda>_. 0)(0 := 0x55, 4 := 7))) = 0 \<and>
   (\<exists>t'. getirl sample_hdr (deliver [(3, 0, 17)] (boot sample_hdr ((\<lambda>_. 0)(0 := 0x55, 4 := 7)))) = Returns t' \<and>
         ledMode t' = 7)"
proof -
  let ?s = "(power_on ((\<lambda>_. 0)(0 := 0x55)))\<lparr>IRProtocol := 3, IRCommand := 17,
        strandActive := True, ledMode := 7\<rparr>"
  let ?t = "deliver [(3, 0, 17)] (boot sample_hdr ((\<lambda>_. 0)(0 := 0x55, 4 := 7)))"
  have hs: "IRProtocol ?s \<noteq> 0" "IRCommand ?s = IR sample_hdr E1" "strandActive ?s" "\<not> strandFlag ?s"
    by (simp_all add: sample_hdr_def power_on_def)
  have bt: "IRProtocol (boot sample_hdr ((\<lambda>_. 0)(0 := 0x55, 4 := 7))) = 0"
           "\<not> strandActive (boot sample_hdr ((\<lambda>_. 0)(0 := 0x55, 4 := 7)))"
           "eeprom (boot sample_hdr ((\<lambda>_. 0)(0 := 0x55, 4 := 7))) = (\<lambda>_. 0)(0 := 0x55, 4 := 7)"
           "ledMode (boot sample_hdr ((\<lambda>_. 0)(0 := 0x55, 4 := 7))) = 0"
    by (simp_all add: boot_def setup_sketch_def Let_def emit_def EEPROM_read_def power_on_def
        ISINIT_def INITVAL_def STARTMODE_def STRANDLEN_def STRANDEL_def)
  have ht: "IRProtocol ?t \<noteq> 0" "IRCommand ?t = IR sample_hdr E1" "\<not> strandActive ?t"
           "eeprom ?t FAV1 = 7"
    using bt by (simp_all add: IREvent_def IRL_BLOCKING_def sample_hdr_def FAV1_def)
  have e: "getirl sample_hdr ?s =
     Returns ((power_on ((\<lambda>_. 0)(0 := 0x55)))\<lparr>IRCommand := 17, strandActive := True, ledMode := 7,
        eeprom := (\<lambda>_. 0)(0 := 0x55, 4 := 7)\<rparr>)"
    by (simp add: getirl_def getirl_switch_def Let_def set_strandfav_def EEPROM_write_def
        power_on_def sample_hdr_def FAV1_def fun_upd_twist)
  from favorite_round_trip [OF distinct_codes_sample hs ht(1,2,3)] e ht(4) bt(4)
  show ?thesis by (auto simp add: FAV1_def)
qed

text \<open>
  As stated, with the strand active only, the claim fails: on the active strand in mode 7
  with a selection pending (the state reached above by B1, A2, B1), button E1 settles the
  selection, writes nothing, and recalls the stored favourite 3; \<open>FAV1\<close> still holds 3.
\<close>

theorem favorite_round_trip_counterexample:
  "strandActive ((boot sample_hdr ((\<lambda>_. 0)(ISINIT := INITVAL, STARTMODE := 7, STRANDEL := 5, FAV1 := 3)))
       \<lparr>IRCommand := 5, strandActive := True, strandFlag := True, max_bright := 127,
         trace := [delay 1000, setBrightness 255, fill_solid 0 (0, 0, 0), Call noisewide] @ [setBrightness 127]\<rparr>) \<and>
   ledMode ((boot sample_hdr ((\<lambda>_. 0)(ISINIT := INITVAL, STARTMODE := 7, STRANDEL := 5, FAV1 := 3)))
       \<lparr>IRCommand := 5, strandActive := True, strandFlag := True, max_bright := 127,
         trace := [delay 1000, setBrightness 255, fill_solid 0 (0, 0, 0), Call noisewide] @ [setBrightness 127]\<rparr>) = 7 \<and>
   getirl sample_hdr (IREvent 3 0 17 ((boot sample_hdr ((\<lambda>_. 0)(ISINIT := INITVAL, STARTMODE := 7, STRANDEL := 5, FAV1 := 3)))
       \<lparr>IRCommand := 5, strandActive := True, strandFlag := True, max_bright := 127,
         trace := [delay 1000, setBrightness 255, fill_solid 0 (0, 0, 0), Call noisewide] @ [setBrightness 127]\<rparr>)) =
     Returns ((boot sample_hdr ((\<lambda>_. 0)(ISINIT := INITVAL, STARTMODE := 7, STRANDEL := 5, FAV1 := 3)))
       \<lparr>IRCommand := 17, ledMode := 3, thisdelay := 40, max_bright := 127,
         trace := [delay 1000, setBrightness 255, fill_solid 0 (0, 0, 0), Call noisewide] @
           [setBrightness 127, FastLED_delay 500, fill_solid 0 (0, 0, 0), Call bubbles]\<rparr>) \<and>
   eeprom ((boot sample_hdr ((\<lambda>_. 0)(ISINIT := INITVAL, STARTMODE := 7, STRANDEL := 5, FAV1 := 3)))
       \<lparr>IRCommand := 17, ledMode := 3, thisdelay := 40, max_bright := 127,
         trace := [delay 1000, setBrightness 255, fill_solid 0 (0, 0, 0), Call noisewide] @
           [setBrightness 127, FastLED_delay 500, fill_solid 0 (0, 0, 0), Call bubbles]\<rparr>) FAV1 = 3 \<and>
   (3 :: u8) \<noteq> 7"
  unfolding boot_initialised
  by (simp add: getirl_def getirl_switch_def set_strand_def Let_def IREvent_def
      IRL_BLOCKING_def power_on_def emit_def EEPROM_read_def strobe_mode_def run_def meshwait_def
      sample_hdr_def STRANDID_def)

section \<open>Strand selection\<close>

lemma strand_fields [simp]:
  "strandActive (meshwait s) = strandActive s" "strandFlag (meshwait s) = strandFlag s"
  "strandActive (set_strandlen H s) = strandActive s" "strandFlag (set_strandlen H s) = strandFlag s"
  "strandActive (set_meshdel H s) = strandActive s" "strandFlag (set_meshdel H s) = strandFlag s"
  "strandActive (set_strandfav H s) = strandActive s" "strandFlag (set_strandfav H s) = strandFlag s"
  "strandActive (EEPROM_write a v s) = strandActive s" "strandFlag (EEPROM_write a v s) = strandFlag s"
  "strandActive (emit e s) = strandActive s" "strandFlag (emit e s) = strandFlag s"
  by (simp_all add: meshwait_def set_strandlen_def set_meshdel_def set_strandfav_def
      EEPROM_write_def emit_def Let_def)

lemma switch_keeps_strand:
  "IRCommand s \<noteq> IR H B1 \<Longrightarrow>
   (case getirl_switch H s of
      Returns t \<Rightarrow> strandActive t = strandActive s \<and> strandFlag t = strandFlag s
    | Reboots t \<Rightarrow> strandActive t = strandActive s \<and> strandFlag t = strandFlag s
    | Hangs \<Rightarrow> True)"
  unfolding getirl_switch_def Let_def
  apply (cases "IRCommand s = IR H A1")
  subgoal by (simp add: split: option.splits)
  apply (cases "IRCommand s = IR H A2")
  subgoal by (simp add: split: option.splits)
  apply (cases "IRCommand s = IR H A3")
  subgoal by (simp add: split: option.splits)
  apply (cases "IRCommand s = IR H A4")
  subgoal by (simp add: split: option.splits)
  apply (cases "IRCommand s = IR H B1")
  subgoal by (simp add: split: option.splits)
  apply (cases "IRCommand s = IR H B2")
  subgoal by (simp add: split: option.splits)
  apply (cases "IRCommand s = IR H B3")
  subgoal by (simp add: split: option.splits)
  apply (cases "IRCommand s = IR H B4")
  subgoal by (simp add: split: option.splits)
  apply (cases "IRCommand s = IR H C1")
  subgoal by (simp add: split: option.splits)
  apply (cases "IRCommand s = IR H C2")
  subgoal by (simp add: split: option.splits)
  apply (cases "IRCommand s = IR H C3")
  subgoal by (simp add: split: option.splits)
  apply (cases "IRCommand s = IR H C4")
  subgoal by (simp add: split: option.splits)
  apply (cases "IRCommand s = IR H D1")
  subgoal by (simp add: split: option.splits)
  apply (cases "IRCommand s = IR H D2")
  subgoal by (simp add: split: option.splits)
  apply (cases "IRCommand s = IR H D3")
  subgoal by (simp add: split: option.splits)
  apply (cases "IRCommand s = IR H D4")
  subgoal by (simp add: split: option.splits)
  apply (cases "IRCommand s = IR H E1")
  subgoal by (simp add: split: option.splits)
  apply (cases "IRCommand s = IR H E2")
  subgoal by (simp add: split: option.splits)
  apply (cases "IRCommand s = IR H E3")
  subgoal by (simp add: split: option.splits)
  apply (cases "IRCommand s = IR H E4")
  subgoal by (simp add: split: option.splits)
  apply (cases "IRCommand s = IR H F1")
  subgoal by (simp add: split: option.splits)
  apply (cases "IRCommand s = IR H F2")
  subgoal by (simp add: split: option.splits)
  apply (cases "IRCommand s = IR H F3")
  subgoal by (simp add: split: option.splits)
  apply (cases "IRCommand s = IR H F4")
  subgoal by (simp add: split: option.splits)
  apply simp
  done

lemma switch_A2:
  "distinct_codes H \<Longrightarrow> IRCommand s = IR H A2 \<Longrightarrow>
   getirl_switch H s =
     Returns (s\<lparr>max_bright := word_of_int (max (uint (max_bright s) div 2) 1),
        trace := trace s @ [setBrightness (word_of_int (max (uint (max_bright s) div 2) 1))]\<rparr>)"
  by (simp add: getirl_switch_def Let_def codes_eq emit_def)

text \<open>
  Claim C10. When a strand selection is pending and the next command is not B1, the
  command decides the activation (\<open>strandActive\<close> becomes true exactly when the command is
  \<open>STRANDID\<close>, \<open>strandFlag\<close> is cleared), and the switch of \<open>getirl\<close> still runs on that
  command in the same pass. With \<open>STRANDID\<close> = button A2: the strand is activated and the
  brightness is halved.
\<close>

theorem select_answer_still_dispatched:
  assumes "IRProtocol s \<noteq> 0" and "strandFlag s" and "IRCommand s \<noteq> IR H B1"
  shows "getirl H s =
           (case getirl_switch H
                   (s\<lparr>strandFlag := False, strandActive := (IRCommand s = STRANDID H),
                      IRProtocol := 0\<rparr>) of
              Returns t \<Rightarrow> Returns (t\<lparr>IRProtocol := 0\<rparr>)
            | Reboots t \<Rightarrow> Reboots t
            | Hangs \<Rightarrow> Hangs) \<and>
         (\<forall>t. getirl H s = Returns t \<longrightarrow>
               strandActive t = (IRCommand s = STRANDID H) \<and> \<not> strandFlag t) \<and>
         (distinct_codes H \<and> IRCommand s = IR H A2 \<longrightarrow>
            getirl H s =
              Returns (s\<lparr>strandFlag := False, strandActive := True, IRProtocol := 0,
                 max_bright := word_of_int (max (uint (max_bright s) div 2) 1),
                 trace := trace s @ [setBrightness (word_of_int (max (uint (max_bright s) div 2) 1))]\<rparr>))"
proof (intro conjI allI impI)
  let ?s1 = "s\<lparr>strandFlag := False, strandActive := (IRCommand s = STRANDID H), IRProtocol := 0\<rparr>"
  show g: "getirl H s =
           (case getirl_switch H ?s1 of
              Returns t \<Rightarrow> Returns (t\<lparr>IRProtocol := 0\<rparr>)
            | Reboots t \<Rightarrow> Reboots t
            | Hangs \<Rightarrow> Hangs)"
    using assms by (simp add: getirl_unfold)
  have c1: "IRCommand ?s1 \<noteq> IR H B1" using assms(3) by simp
  {
    fix t assume r: "getirl H s = Returns t"
    from r g obtain u where u: "getirl_switch H ?s1 = Returns u" "t = u\<lparr>IRProtocol := 0\<rparr>"
      by (cases "getirl_switch H ?s1") auto
    from switch_keeps_strand [OF c1] u(1)
    have "strandActive u = (IRCommand s = STRANDID H) \<and> \<not> strandFlag u" by simp
    then show "strandActive t = (IRCommand s = STRANDID H)" and "\<not> strandFlag t"
      using u(2) by simp_all
  }
  {
    assume a: "distinct_codes H \<and> IRCommand s = IR H A2"
    then have "IRCommand ?s1 = IR H A2" by simp
    from switch_A2 [OF conjunct1 [OF a] this] g a
    show "getirl H s =
              Returns (s\<lparr>strandFlag := False, strandActive := True, IRProtocol := 0,
                 max_bright := word_of_int (max (uint (max_bright s) div 2) 1),
                 trace := trace s @ [setBrightness (word_of_int (max (uint (max_bright s) div 2) 1))]\<rparr>)"
      by (simp add: STRANDID_def)
  }
qed

text \<open>On the sample remote, after power-on with a selection pending: button A2 (code 2).\<close>

theorem select_answer_still_dispatched_witness:
  "strandFlag ((power_on (\<lambda>_. 0))\<lparr>IRProtocol := 3, IRCommand := 2, strandFlag := True\<rparr>) \<and>
   distinct_codes sample_hdr \<and>
   getirl sample_hdr ((power_on (\<lambda>_. 0))\<lparr>IRProtocol := 3, IRCommand := 2, strandFlag := True\<rparr>) =
     Returns ((power_on (\<lambda>_. 0))\<lparr>IRCommand := 2, strandActive := True, max_bright := 127,
        trace := [setBrightness 127]\<rparr>)"
proof -
  let ?s = "(power_on (\<lambda>_. 0))\<lparr>IRProtocol := 3, IRCommand := 2, strandFlag := True\<rparr>"
  have h: "IRProtocol ?s \<noteq> 0" "strandFlag ?s" "IRCommand ?s \<noteq> IR sample_hdr B1"
    by (simp_all add: sample_hdr_def)
  have a: "IRCommand ?s = IR sample_hdr A2" by (simp add: sample_hdr_def)
  from select_answer_still_dispatched [OF h] distinct_codes_sample a
  have "getirl sample_hdr ?s =
      Returns (?s\<lparr>strandFlag := False, strandActive := True, IRProtocol := 0,
         max_bright := word_of_int (max (uint (max_bright ?s) div 2) 1),
         trace := trace ?s @ [setBrightness (word_of_int (max (uint (max_bright ?s) div 2) 1))]\<rparr>)"
    by blast
  then show ?thesis
    using distinct_codes_sample by (simp add: power_on_def)
qed

section \<open>Strand length\<close>

text \<open>The guard after the decrement never fires: an 8-bit value is never above 255.\<close>

lemma set_strandlen_decrement:
  "strandActive s \<Longrightarrow> IRCommand s = IR H B2 \<Longrightarrow>
   NUM_LEDS (set_strandlen H s) = NUM_LEDS s - 1"
proof -
  have "\<not> 255 < uint (NUM_LEDS s - 1)"
    using uint_lt2p [of "NUM_LEDS s - 1"] by simp
  then show "strandActive s \<Longrightarrow> IRCommand s = IR H B2 \<Longrightarrow>
      NUM_LEDS (set_strandlen H s) = NUM_LEDS s - 1"
    by (simp add: set_strandlen_def Let_def emit_def EEPROM_write_def)
qed

lemma set_strandlen_increment:
  "distinct_codes H \<Longrightarrow> strandActive s \<Longrightarrow> IRCommand s = IR H B3 \<Longrightarrow>
   uint (NUM_LEDS (set_strandlen H s)) \<le> MAX_LEDS - 1"
  by (simp add: set_strandlen_def Let_def emit_def EEPROM_write_def codes_eq MAX_LEDS_def)

text \<open>
  Claim C3. The strand length commands are to keep \<open>NUM_LEDS\<close> within
  \<open>[0, MAX_LEDS - 1]\<close>, saturating at both ends. The increment does
  (\<open>set_strandlen_increment\<close>). The decrement does not: its guard compares an 8-bit value
  with 255, so from 0 the length wraps to 255, which is also written to the EEPROM and
  used as the count of the white fill.
\<close>

theorem strandlen_decrement_wraps:
  "getirl sample_hdr ((power_on (\<lambda>_. 0))\<lparr>IRProtocol := 3, IRCommand := 6,
       strandActive := True, NUM_LEDS := 0\<rparr>) =
   Returns ((power_on (\<lambda>_. 0))\<lparr>IRCommand := 6, strandActive := True, NUM_LEDS := 255,
       eeprom := (\<lambda>_. 0)(2 := 255),
       trace := [fill_solid 64 (0, 0, 0), fill_solid 255 (255, 255, 255)]\<rparr>)"
  by (simp add: getirl_def getirl_switch_def Let_def set_strandlen_def emit_def EEPROM_write_def
      power_on_def sample_hdr_def MAX_LEDS_def Black_def STRANDLEN_def minus_1_u8)

section \<open>Mesh delay\<close>

lemma switch_E2:
  "distinct_codes H \<Longrightarrow> IRCommand s = IR H E2 \<Longrightarrow> strandActive s \<Longrightarrow>
   getirl_switch H s = Returns (set_meshdel H s)"
  by (simp add: getirl_switch_def Let_def codes_eq)

lemma switch_E2_inactive:
  "distinct_codes H \<Longrightarrow> IRCommand s = IR H E2 \<Longrightarrow> \<not> strandActive s \<Longrightarrow>
   getirl_switch H s = Returns s"
  by (simp add: getirl_switch_def Let_def codes_eq)

lemma set_meshdel_decrement:
  "strandActive s \<Longrightarrow> IRCommand s = IR H E2 \<Longrightarrow>
   meshdelay (set_meshdel H s) = (if 10000 < meshdelay s - 1 then 0 else meshdelay s - 1)"
  by (simp add: set_meshdel_def Let_def emit_def EEPROM_write_def)

lemma u16_pred:
  "unat ((k::u16) - 1) = (if k = 0 then 65535 else unat k - 1)"
  by (simp add: unat_minus_one unsigned_minus_1_eq_mask mask_eq_exp_minus_1)

text \<open>
  Claim C8, amended. The mesh-delay decrease command (button E2), received with the strand
  active and no strand selection pending (\<open>strandFlag = 0\<close>), runs \<open>set_meshdel\<close>, whose
  decrement gives 0 from 0, and \<open>k - 1\<close> from every \<open>k\<close> with \<open>0 < k \<le> 10001\<close>; from a
  value above 10001 the same guard (\<open>meshdelay > 10000\<close> after the subtraction) gives 0.
  Received while a strand selection is pending, the command settles the selection
  instead: the strand is deactivated and the mesh delay stays as it was.
\<close>

theorem meshdel_decrement:
  assumes "distinct_codes H" and "IRProtocol s \<noteq> 0"
    and "strandActive s" and "IRCommand s = IR H E2"
  shows "unat (meshdelay (set_meshdel H s)) =
           (if unat (meshdelay s) = 0 \<or> 10001 < unat (meshdelay s) then 0
            else unat (meshdelay s) - 1) \<and>
         (\<not> strandFlag s \<longrightarrow> getirl H s = Returns ((set_meshdel H s)\<lparr>IRProtocol := 0\<rparr>)) \<and>
         (strandFlag s \<longrightarrow>
            getirl H s = Returns (s\<lparr>strandFlag := False, strandActive := False, IRProtocol := 0\<rparr>))"
proof (intro conjI impI)
  have b: "IRCommand s \<noteq> IR H B1" using assms(1,4) by (simp add: codes_eq)
  have m: "meshdelay (set_meshdel H s) = (if 10000 < meshdelay s - 1 then 0 else meshdelay s - 1)"
    using assms(3,4) by (rule set_meshdel_decrement)
  have "unat (if 10000 < meshdelay s - 1 then 0 else meshdelay s - 1) =
        (if unat (meshdelay s) = 0 \<or> 10001 < unat (meshdelay s) then 0
         else unat (meshdelay s) - 1)"
    by (auto simp add: word_less_nat_alt u16_pred unat_eq_0)
  then show "unat (meshdelay (set_meshdel H s)) =
           (if unat (meshdelay s) = 0 \<or> 10001 < unat (meshdelay s) then 0
            else unat (meshdelay s) - 1)"
    by (simp only: m)
  show "getirl H s = Returns ((set_meshdel H s)\<lparr>IRProtocol := 0\<rparr>)" if "\<not> strandFlag s"
    using that assms(2) b switch_E2 [OF assms(1,4,3)] by (simp add: getirl_unfold)
  show "getirl H s = Returns (s\<lparr>strandFlag := False, strandActive := False, IRProtocol := 0\<rparr>)"
    if f: "strandFlag s"
  proof -
    let ?s1 = "s\<lparr>strandFlag := False, strandActive := (IRCommand s = STRANDID H), IRProtocol := 0\<rparr>"
    have n: "IRCommand s \<noteq> STRANDID H" using assms(1,4) by (simp add: STRANDID_def codes_eq)
    have "IRCommand ?s1 = IR H E2" using assms(4) by simp
    moreover have "\<not> strandActive ?s1" using n by simp
    ultimately have "getirl_switch H ?s1 = Returns ?s1"
      by (rule switch_E2_inactive [OF assms(1)])
    then show ?thesis using f assms(2) b n by (simp add: getirl_unfold)
  qed
qed

text \<open>
  From 5 units the delay goes to 4, which is stored and shown as four white LEDs; with a
  selection pending it stays at 5 and the strand is no longer active.
\<close>

theorem meshdel_decrement_witness:
  "distinct_codes sample_hdr \<and>
   getirl sample_hdr ((power_on (\<lambda>_. 0))\<lparr>IRProtocol := 3, IRCommand := 18,
       strandActive := True, meshdelay := 5\<rparr>) =
   Returns ((power_on (\<lambda>_. 0))\<lparr>IRCommand := 18, strandActive := True, meshdelay := 4,
       eeprom := (\<lambda>_. 0)(3 := 4),
       trace := [fill_solid 64 (0, 0, 0), fill_solid 4 (255, 255, 255)]\<rparr>) \<and>
   unat (meshdelay (set_meshdel sample_hdr ((power_on (\<lambda>_. 0))\<lparr>IRProtocol := 3, IRCommand := 18,
       strandActive := True, meshdelay := 5\<rparr>))) = 4 \<and>
   getirl sample_hdr ((power_on (\<lambda>_. 0))\<lparr>IRProtocol := 3, IRCommand := 18,
       strandActive := True, strandFlag := True, meshdelay := 5\<rparr>) =
   Returns ((power_on (\<lambda>_. 0))\<lparr>IRCommand := 18, meshdelay := 5\<rparr>)"
proof -
  let ?s = "(power_on (\<lambda>_. 0))\<lparr>IRProtocol := 3, IRCommand := 18,
       strandActive := True, meshdelay := 5\<rparr>"
  let ?p = "(power_on (\<lambda>_. 0))\<lparr>IRProtocol := 3, IRCommand := 18,
       strandActive := True, strandFlag := True, meshdelay := 5\<rparr>"
  have d: "distinct_codes sample_hdr" by (rule distinct_codes_sample)
  have h: "IRProtocol ?s \<noteq> 0" "strandActive ?s" "IRCommand ?s = IR sample_hdr E2"
    by (simp_all add: power_on_def sample_hdr_def)
  have k: "IRProtocol ?p \<noteq> 0" "strandActive ?p" "IRCommand ?p = IR sample_hdr E2"
    by (simp_all add: power_on_def sample_hdr_def)
  have sm: "set_meshdel sample_hdr ?s =
      (power_on (\<lambda>_. 0))\<lparr>IRProtocol := 3, IRCommand := 18, strandActive := True, meshdelay := 4,
       eeprom := (\<lambda>_. 0)(3 := 4),
       trace := [fill_solid 64 (0, 0, 0), fill_solid 4 (255, 255, 255)]\<rparr>"
    by (simp add: set_meshdel_def Let_def emit_def EEPROM_write_def power_on_def sample_hdr_def
        MAX_LEDS_def Black_def STRANDEL_def)
  from meshdel_decrement [OF d h]
  have a: "unat (meshdelay (set_meshdel sample_hdr ?s)) = 4"
    and b: "getirl sample_hdr ?s = Returns ((set_meshdel sample_hdr ?s)\<lparr>IRProtocol := 0\<rparr>)"
    by (simp_all add: power_on_def)
  from meshdel_decrement [OF d k]
  have c: "getirl sample_hdr ?p =
      Returns (?p\<lparr>strandFlag := False, strandActive := False, IRProtocol := 0\<rparr>)"
    by (simp add: power_on_def)
  from b have b': "getirl sample_hdr ?s =
      Returns ((power_on (\<lambda>_. 0))\<lparr>IRProtocol := 3, IRCommand := 18, strandActive := True,
       meshdelay := 4, eeprom := (\<lambda>_. 0)(3 := 4),
       trace := [fill_solid 64 (0, 0, 0), fill_solid 4 (255, 255, 255)]\<rparr>\<lparr>IRProtocol := 0\<rparr>)"
    by (simp only: sm)
  show ?thesis
    using d a b' c by (simp add: power_on_def)
qed

text \<open>
  As stated the claim fails twice: from 20000 the decrement gives 0, not 19999; and on
  the active strand with a selection pending (the state reached above by B1, A2, B1)
  button E2 leaves the delay at 5.
\<close>

theorem meshdel_decrement_counterexample:
  "getirl sample_hdr ((power_on (\<lambda>_. 0))\<lparr>IRProtocol := 3, IRCommand := 18,
       strandActive := True, meshdelay := 20000\<rparr>) =
   Returns ((power_on (\<lambda>_. 0))\<lparr>IRCommand := 18, strandActive := True, meshdelay := 0,
       eeprom := (\<lambda>_. 0)(3 := 0),
       trace := [fill_solid 64 (0, 0, 0), fill_solid 0 (255, 255, 255)]\<rparr>) \<and>
   (0 :: u16) \<noteq> 20000 - 1 \<and>
   strandActive ((boot sample_hdr ((\<lambda>_. 0)(ISINIT := INITVAL, STARTMODE := 7, STRANDEL := 5, FAV1 := 3)))
       \<lparr>IRCommand := 5, strandActive := True, strandFlag := True, max_bright := 127,
         trace := [delay 1000, setBrightness 255, fill_solid 0 (0, 0, 0), Call noisewide] @ [setBrightness 127]\<rparr>) \<and>
   meshdelay ((boot sample_hdr ((\<lambda>_. 0)(ISINIT := INITVAL, STARTMODE := 7, STRANDEL := 5, FAV1 := 3)))
       \<lparr>IRCommand := 5, strandActive := True, strandFlag := True, max_bright := 127,
         trace := [delay 1000, setBrightness 255, fill_solid 0 (0, 0, 0), Call noisewide] @ [setBrightness 127]\<rparr>) = 5 \<and>
   getirl sample_hdr (IREvent 3 0 18 ((boot sample_hdr ((\<lambda>_. 0)(ISINIT := INITVAL, STARTMODE := 7, STRANDEL := 5, FAV1 := 3)))
       \<lparr>IRCommand := 5, strandActive := True, strandFlag := True, max_bright := 127,
         trace := [delay 1000, setBrightness 255, fill_solid 0 (0, 0, 0), Call noisewide] @ [setBrightness 127]\<rparr>)) =
     Returns ((boot sample_hdr ((\<lambda>_. 0)(ISINIT := INITVAL, STARTMODE := 7, STRANDEL := 5, FAV1 := 3)))
       \<lparr>IRCommand := 18, max_bright := 127,
         trace := [delay 1000, setBrightness 255, fill_solid 0 (0, 0, 0), Call noisewide] @ [setBrightness 127]\<rparr>) \<and>
   meshdelay ((boot sample_hdr ((\<lambda>_. 0)(ISINIT := INITVAL, STARTMODE := 7, STRANDEL := 5, FAV1 := 3)))
       \<lparr>IRCommand := 18, max_bright := 127,
         trace := [delay 1000, setBrightness 255, fill_solid 0 (0, 0, 0), Call noisewide] @ [setBrightness 127]\<rparr>) = 5 \<and>
   (5 :: u16) \<noteq> 5 - 1"
  unfolding boot_initialised
  by (simp add: getirl_def getirl_switch_def set_strand_def set_meshdel_def Let_def
      IREvent_def IRL_BLOCKING_def power_on_def emit_def EEPROM_write_def sample_hdr_def
      STRANDID_def MAX_LEDS_def Black_def STRANDEL_def)

section \<open>Palette selection\<close>

lemma switch_F3:
  "distinct_codes H \<Longrightarrow> IRCommand s = IR H F3 \<Longrightarrow> gGradientPaletteCount H \<noteq> 0 \<Longrightarrow>
   getirl_switch H s =
     Returns (s\<lparr>palchg := 2,
        currentPaletteNumber := (currentPaletteNumber s + 1) mod gGradientPaletteCount H,
        currentPalette := gGradientPalettes H ((currentPaletteNumber s + 1) mod gGradientPaletteCount H)\<rparr>)"
  by (simp add: getirl_switch_def Let_def codes_eq addmod8_mod)

lemma switch_F2:
  "distinct_codes H \<Longrightarrow> IRCommand s = IR H F2 \<Longrightarrow>
   getirl_switch H s =
     Returns (s\<lparr>palchg := 1,
        currentPaletteNumber :=
          (if currentPaletteNumber s - 1 = 255 then gGradientPaletteCount H
           else currentPaletteNumber s - 1),
        currentPalette := gGradientPalettes H
          (if currentPaletteNumber s - 1 = 255 then gGradientPaletteCount H
           else currentPaletteNumber s - 1)\<rparr>)"
  by (simp add: getirl_switch_def Let_def codes_eq)

lemma rotation_frozen:
  "palchg t \<noteq> 3 \<Longrightarrow>
   loop_EVERY_N_SECONDS_5 H t =
     Some (t\<lparr>targetPalette := gGradientPalettes H (currentPaletteNumber t)\<rparr>)"
  by (simp add: loop_EVERY_N_SECONDS_5_def)

lemma u8_pred_neq_255: "(n::u8) \<noteq> 0 \<Longrightarrow> n - 1 \<noteq> 255"
proof
  assume n: "n \<noteq> 0" and e: "n - 1 = 255"
  from e have "n = 255 + 1" by (simp add: algebra_simps)
  then show False using n by simp
qed

lemma u8_pred_less:
  assumes "(n::u8) \<noteq> 0" and "n \<le> c"
  shows "n - 1 < c"
proof -
  have p: "0 < unat n" using assms(1) by (simp add: unat_gt_0)
  have "unat (n - 1) = unat n - 1" using assms(1) by (simp add: unat_minus_one)
  moreover have "unat n \<le> unat c" using assms(2) by (simp add: word_le_nat_alt)
  ultimately have "unat (n - 1) < unat c" using p by arith
  then show ?thesis by (simp add: word_less_nat_alt)
qed

text \<open>
  Claim C4, amended. With a palette table that is not empty, button F3 (next) sets
  \<open>currentPaletteNumber\<close> to \<open>(n + 1) mod gGradientPaletteCount\<close>, an index of the table;
  button F2 (previous), from an index \<open>n\<close> other than 0, sets it to \<open>n - 1\<close>, an index of
  the table when \<open>n\<close> was at most the count. Both assign the table entry at the new index
  to the current palette, leave the target palette as it was, and set \<open>palchg\<close> to a value
  other than 3 (2 and 1), so that the block run every 5 seconds no longer advances the
  index; that block then assigns the entry to the target palette.
\<close>

theorem palette_step:
  assumes "distinct_codes H" and "IRProtocol s \<noteq> 0" and "gGradientPaletteCount H \<noteq> 0"
  shows "(IRCommand s = IR H F3 \<longrightarrow>
            (\<exists>t. getirl H s = Returns t \<and>
               currentPaletteNumber t = (currentPaletteNumber s + 1) mod gGradientPaletteCount H \<and>
               currentPaletteNumber t < gGradientPaletteCount H \<and>
               currentPalette t = gGradientPalettes H (currentPaletteNumber t) \<and>
               targetPalette t = targetPalette s \<and>
               palchg t = 2 \<and>
               loop_EVERY_N_SECONDS_5 H t =
                 Some (t\<lparr>targetPalette := gGradientPalettes H (currentPaletteNumber t)\<rparr>))) \<and>
         (IRCommand s = IR H F2 \<and> currentPaletteNumber s \<noteq> 0 \<longrightarrow>
            (\<exists>t. getirl H s = Returns t \<and>
               currentPaletteNumber t = currentPaletteNumber s - 1 \<and>
               (currentPaletteNumber s \<le> gGradientPaletteCount H \<longrightarrow>
                  currentPaletteNumber t < gGradientPaletteCount H) \<and>
               currentPalette t = gGradientPalettes H (currentPaletteNumber t) \<and>
               targetPalette t = targetPalette s \<and>
               palchg t = 1 \<and>
               loop_EVERY_N_SECONDS_5 H t =
                 Some (t\<lparr>targetPalette := gGradientPalettes H (currentPaletteNumber t)\<rparr>)))"
proof (intro conjI impI)
  let ?s1 = "if strandFlag s
             then s\<lparr>strandFlag := False, strandActive := (IRCommand s = STRANDID H), IRProtocol := 0\<rparr>
             else s"
  let ?c = "gGradientPaletteCount H"
  {
    assume c: "IRCommand s = IR H F3"
    have b: "IRCommand s \<noteq> IR H B1" using c assms(1) by (simp add: codes_eq)
    have c1: "IRCommand ?s1 = IR H F3" using c by simp
    let ?n = "(currentPaletteNumber s + 1) mod ?c"
    let ?t = "?s1\<lparr>palchg := 2, currentPaletteNumber := ?n,
                 currentPalette := gGradientPalettes H ?n, IRProtocol := 0\<rparr>"
    have g: "getirl H s = Returns ?t"
      using switch_F3 [OF assms(1) c1 assms(3)] assms(2) b
      by (simp add: getirl_unfold)
    have lt: "?n < ?c"
      using assms(3) by (simp add: word_mod_less_divisor word_greater_zero_iff)
    have "currentPaletteNumber ?t = ?n" "currentPalette ?t = gGradientPalettes H (currentPaletteNumber ?t)"
         "targetPalette ?t = targetPalette s" "palchg ?t = 2"
      by simp_all
    moreover have "loop_EVERY_N_SECONDS_5 H ?t =
        Some (?t\<lparr>targetPalette := gGradientPalettes H (currentPaletteNumber ?t)\<rparr>)"
      by (rule rotation_frozen) simp
    ultimately show "\<exists>t. getirl H s = Returns t \<and>
               currentPaletteNumber t = (currentPaletteNumber s + 1) mod gGradientPaletteCount H \<and>
               currentPaletteNumber t < gGradientPaletteCount H \<and>
               currentPalette t = gGradientPalettes H (currentPaletteNumber t) \<and>
               targetPalette t = targetPalette s \<and>
               palchg t = 2 \<and>
               loop_EVERY_N_SECONDS_5 H t =
                 Some (t\<lparr>targetPalette := gGradientPalettes H (currentPaletteNumber t)\<rparr>)"
      using g lt by (intro exI [of _ ?t]) (simp only: simp_thms)
  }
  {
    assume a: "IRCommand s = IR H F2 \<and> currentPaletteNumber s \<noteq> 0"
    then have c: "IRCommand s = IR H F2" and nz: "currentPaletteNumber s \<noteq> 0" by simp_all
    have b: "IRCommand s \<noteq> IR H B1" using c assms(1) by (simp add: codes_eq)
    have c1: "IRCommand ?s1 = IR H F2" using c by simp
    have n1: "currentPaletteNumber ?s1 = currentPaletteNumber s" by simp
    let ?n = "currentPaletteNumber s - 1"
    let ?t = "?s1\<lparr>palchg := 1, currentPaletteNumber := ?n,
                 currentPalette := gGradientPalettes H ?n, IRProtocol := 0\<rparr>"
    have g: "getirl H s = Returns ?t"
      using switch_F2 [OF assms(1) c1] assms(2) b u8_pred_neq_255 [OF nz] n1
      by (simp add: getirl_unfold)
    have lt: "currentPaletteNumber s \<le> ?c \<longrightarrow> ?n < ?c"
      using u8_pred_less [OF nz] by blast
    have "currentPaletteNumber ?t = ?n" "currentPalette ?t = gGradientPalettes H (currentPaletteNumber ?t)"
         "targetPalette ?t = targetPalette s" "palchg ?t = 1"
      by simp_all
    moreover have "loop_EVERY_N_SECONDS_5 H ?t =
        Some (?t\<lparr>targetPalette := gGradientPalettes H (currentPaletteNumber ?t)\<rparr>)"
      by (rule rotation_frozen) simp
    ultimately show "\<exists>t. getirl H s = Returns t \<and>
               currentPaletteNumber t = currentPaletteNumber s - 1 \<and>
               (currentPaletteNumber s \<le> gGradientPaletteCount H \<longrightarrow>
                  currentPaletteNumber t < gGradientPaletteCount H) \<and>
               currentPalette t = gGradientPalettes H (currentPaletteNumber t) \<and>
               targetPalette t = targetPalette s \<and>
               palchg t = 1 \<and>
               loop_EVERY_N_SECONDS_5 H t =
                 Some (t\<lparr>targetPalette := gGradientPalettes H (currentPaletteNumber t)\<rparr>)"
      using g lt by (intro exI [of _ ?t]) (simp only: simp_thms)
  }
qed


text \<open>On the sample table of three palettes, from index 2: next wraps to 0, previous gives 1.\<close>

theorem palette_step_witness:
  "distinct_codes sample_hdr \<and> gGradientPaletteCount sample_hdr \<noteq> 0 \<and>
   getirl sample_hdr ((power_on (\<lambda>_. 0))\<lparr>IRProtocol := 3, IRCommand := 23,
       currentPaletteNumber := 2\<rparr>) =
     Returns ((power_on (\<lambda>_. 0))\<lparr>IRCommand := 23, currentPaletteNumber := 0, palchg := 2,
       currentPalette := replicate 16 (0, 0, 0)\<rparr>) \<and>
   getirl sample_hdr ((power_on (\<lambda>_. 0))\<lparr>IRProtocol := 3, IRCommand := 22,
       currentPaletteNumber := 2\<rparr>) =
     Returns ((power_on (\<lambda>_. 0))\<lparr>IRCommand := 22, currentPaletteNumber := 1, palchg := 1,
       currentPalette := replicate 16 (1, 1, 1)\<rparr>) \<and>
   (\<exists>t. getirl sample_hdr ((power_on (\<lambda>_. 0))\<lparr>IRProtocol := 3, IRCommand := 23,
       currentPaletteNumber := 2\<rparr>) = Returns t \<and> currentPaletteNumber t = 0 \<and> palchg t = 2 \<and>
       targetPalette t = replicate 16 Black)"
proof -
  let ?a = "(power_on (\<lambda>_. 0))\<lparr>IRProtocol := 3, IRCommand := 23, currentPaletteNumber := 2\<rparr>"
  let ?b = "(power_on (\<lambda>_. 0))\<lparr>IRProtocol := 3, IRCommand := 22, currentPaletteNumber := 2\<rparr>"
  have d: "distinct_codes sample_hdr" by (rule distinct_codes_sample)
  have n: "gGradientPaletteCount sample_hdr \<noteq> 0" by (simp add: sample_hdr_def)
  have p: "IRProtocol ?a \<noteq> 0" by simp
  have ca: "IRCommand ?a = IR sample_hdr F3" by (simp add: sample_hdr_def)
  have ea: "getirl sample_hdr ?a =
     Returns ((power_on (\<lambda>_. 0))\<lparr>IRCommand := 23, currentPaletteNumber := 0, palchg := 2,
       currentPalette := replicate 16 (0, 0, 0)\<rparr>)"
    by (simp add: getirl_def getirl_switch_def Let_def power_on_def sample_hdr_def addmod8_mod)
  have eb: "getirl sample_hdr ?b =
     Returns ((power_on (\<lambda>_. 0))\<lparr>IRCommand := 22, currentPaletteNumber := 1, palchg := 1,
       currentPalette := replicate 16 (1, 1, 1)\<rparr>)"
    by (simp add: getirl_def getirl_switch_def Let_def power_on_def sample_hdr_def)
  from palette_step [OF d p n] ca
  have "\<exists>t. getirl sample_hdr ?a = Returns t \<and>
      currentPaletteNumber t = (currentPaletteNumber ?a + 1) mod gGradientPaletteCount sample_hdr \<and>
      targetPalette t = targetPalette ?a \<and> palchg t = 2"
    by blast
  then have "\<exists>t. getirl sample_hdr ?a = Returns t \<and> currentPaletteNumber t = 0 \<and> palchg t = 2 \<and>
       targetPalette t = replicate 16 Black"
    by (auto simp add: sample_hdr_def power_on_def)
  then show ?thesis using d n ea eb by simp
qed

text \<open>
  As stated the claim fails: from index 0 button F2 gives the index 3, the count of the
  sample table and no index of it; and after button F3 the target palette is still the
  one from before, not the entry at the new index.
\<close>

theorem palette_step_counterexample:
  "getirl sample_hdr ((power_on (\<lambda>_. 0))\<lparr>IRProtocol := 3, IRCommand := 22\<rparr>) =
     Returns ((power_on (\<lambda>_. 0))\<lparr>IRCommand := 22, currentPaletteNumber := 3, palchg := 1,
       currentPalette := replicate 16 (3, 3, 3)\<rparr>) \<and>
   \<not> (3 :: u8) < gGradientPaletteCount sample_hdr \<and>
   getirl sample_hdr ((power_on (\<lambda>_. 0))\<lparr>IRProtocol := 3, IRCommand := 23\<rparr>) =
     Returns ((power_on (\<lambda>_. 0))\<lparr>IRCommand := 23, currentPaletteNumber := 1, palchg := 2,
       currentPalette := replicate 16 (1, 1, 1)\<rparr>) \<and>
   targetPalette ((power_on (\<lambda>_. 0))\<lparr>IRCommand := 23, currentPaletteNumber := 1, palchg := 2,
       currentPalette := replicate 16 (1, 1, 1)\<rparr>) \<noteq> gGradientPalettes sample_hdr 1"
  by (simp add: getirl_def getirl_switch_def Let_def power_on_def sample_hdr_def addmod8_mod
      minus_1_u8 Black_def)

section \<open>Demo scheduler\<close>

text \<open>The second counter stays below \<open>maxMode * demotime = 170\<close>, so the mode it selects below 17.\<close>

lemma secondHand_bound:
  "unat (ucast ((now :: u32) div 1000 mod ucast (ucast maxMode * ucast demotime :: u16)) :: u8) < 170"
proof -
  have m: "(ucast (ucast maxMode * ucast demotime :: u16) :: u32) = 170"
    by (simp add: maxMode_def demotime_def)
  have "unat (now div 1000 mod 170) < 170"
    by (simp add: unat_mod)
  moreover have "unat (ucast (now div 1000 mod 170) :: u8) \<le> unat (now div 1000 mod 170)"
    by (simp add: unsigned_ucast_eq take_bit_eq_mod)
  ultimately show ?thesis by (simp only: m)
qed

lemma demo_check_never_last:
  "demorun s = 1 \<Longrightarrow>
   ledMode (demo_check now rnd s) = ledMode s \<or> ledMode (demo_check now rnd s) < maxMode"
proof -
  assume d: "demorun s = 1"
  let ?sh = "ucast (now div 1000 mod ucast (ucast maxMode * ucast demotime :: u16)) :: u8"
  have "unat (?sh div demotime) < 17"
    using secondHand_bound [of now] by (simp add: unat_div demotime_def)
  then have "?sh div demotime < maxMode"
    by (simp add: word_less_nat_alt maxMode_def)
  then show ?thesis
    using d by (simp add: demo_check_def Let_def meshwait_def emit_def)
qed

text \<open>Passes within the same second change nothing after the first.\<close>

lemma demo_check_same_second:
  "now div 1000 = now' div 1000 \<Longrightarrow>
   demo_check now' rnd' (demo_check now rnd s) = demo_check now rnd s"
  by (simp add: demo_check_def Let_def meshwait_def emit_def)


text \<open>
  Claim C2. In sequential demo mode the modes are to follow each other as
  \<open>0, 1, ..., 17, 0, ...\<close>, one per 10-second boundary. The code takes the second counter
  modulo \<open>maxMode * demotime\<close>, which leaves out the last mode: the boundary at 160 s
  selects mode 16 and the one at 170 s selects mode 0; mode 17 is never selected
  (\<open>demo_check_never_last\<close>).
\<close>

theorem demo_skips_last_mode:
  "ledMode (demo_check 160000 0 ((power_on (\<lambda>_. 0))\<lparr>demorun := 1\<rparr>)) = 16 \<and>
   ledMode (demo_check 170000 0 (demo_check 160000 0 ((power_on (\<lambda>_. 0))\<lparr>demorun := 1\<rparr>))) = 0"
  by (simp add: demo_check_def Let_def meshwait_def emit_def power_on_def maxMode_def demotime_def)

end
